theory Spec2Isabelle
  imports Main "HOL-Library.Word"
begin

section \<open>Data model\<close>

text \<open>
  The Gateway API types of \<^verbatim>\<open>gateway_utils.go\<close> come from the libraries
  \<^verbatim>\<open>gatewayv1alpha2\<close> and \<^verbatim>\<open>metav1\<close>. They are modelled with the fields
  the functions read or write. The Go string types (\<^verbatim>\<open>ProtocolType\<close>,
  \<^verbatim>\<open>Hostname\<close>, \<^verbatim>\<open>SectionName\<close>, \<^verbatim>\<open>ConditionStatus\<close>, condition types and
  reasons) stay strings, so that a value outside the named constants is possible, as in Go.
  \<^verbatim>\<open>PortNumber\<close> and \<^verbatim>\<open>AttachedRoutes\<close> are \<^verbatim>\<open>int32\<close>, a generation is
  \<^verbatim>\<open>int64\<close>; they are only copied and compared for equality. A pointer to a struct is
  modelled by the struct (no nil receiver), the optional \<^verbatim>\<open>*Hostname\<close> by an option.
\<close>

type_synonym ProtocolType = string
type_synonym PortNumber = "32 word"
type_synonym Hostname = string
type_synonym SectionName = string
type_synonym ConditionStatus = string
type_synonym Time = nat
type_synonym RouteGroupKind = "string option \<times> string"

abbreviation HTTPProtocolType :: ProtocolType where "HTTPProtocolType \<equiv> ''HTTP''"
abbreviation HTTPSProtocolType :: ProtocolType where "HTTPSProtocolType \<equiv> ''HTTPS''"
abbreviation TLSProtocolType :: ProtocolType where "TLSProtocolType \<equiv> ''TLS''"
abbreviation TCPProtocolType :: ProtocolType where "TCPProtocolType \<equiv> ''TCP''"
abbreviation UDPProtocolType :: ProtocolType where "UDPProtocolType \<equiv> ''UDP''"

abbreviation ConditionTrue :: ConditionStatus where "ConditionTrue \<equiv> ''True''"
abbreviation ConditionFalse :: ConditionStatus where "ConditionFalse \<equiv> ''False''"
abbreviation ConditionUnknown :: ConditionStatus where "ConditionUnknown \<equiv> ''Unknown''"

abbreviation GatewayConditionScheduled :: string where "GatewayConditionScheduled \<equiv> ''Scheduled''"
abbreviation GatewayReasonScheduled :: string where "GatewayReasonScheduled \<equiv> ''Scheduled''"
abbreviation GatewayConditionReady :: string where "GatewayConditionReady \<equiv> ''Ready''"
abbreviation GatewayReasonReady :: string where "GatewayReasonReady \<equiv> ''Ready''"

abbreviation ListenerConditionConflicted :: string where "ListenerConditionConflicted \<equiv> ''Conflicted''"
abbreviation ListenerConditionDetached :: string where "ListenerConditionDetached \<equiv> ''Detached''"
abbreviation ListenerConditionReady :: string where "ListenerConditionReady \<equiv> ''Ready''"
abbreviation ListenerReasonProtocolConflict :: string where "ListenerReasonProtocolConflict \<equiv> ''ProtocolConflict''"
abbreviation ListenerReasonHostnameConflict :: string where "ListenerReasonHostnameConflict \<equiv> ''HostnameConflict''"
abbreviation ListenerReasonNoConflicts :: string where "ListenerReasonNoConflicts \<equiv> ''NoConflicts''"
abbreviation ListenerReasonUnsupportedProtocol :: string where "ListenerReasonUnsupportedProtocol \<equiv> ''UnsupportedProtocol''"
abbreviation ListenerReasonPortUnavailable :: string where "ListenerReasonPortUnavailable \<equiv> ''PortUnavailable''"
abbreviation ListenerReasonReady :: string where "ListenerReasonReady \<equiv> ''Ready''"
abbreviation ListenerReasonPending :: string where "ListenerReasonPending \<equiv> ''Pending''"

text \<open>\<^verbatim>\<open>metav1.Condition\<close>.\<close>

record Condition =
  cond_Type :: string
  cond_Status :: ConditionStatus
  cond_ObservedGeneration :: "64 word"
  cond_LastTransitionTime :: Time
  cond_Reason :: string
  cond_Message :: string

text \<open>\<^verbatim>\<open>gatewayv1alpha2.Listener\<close>; a Kong listen is a Listener too.\<close>

record Listener =
  l_Name :: SectionName
  l_Hostname :: "Hostname option"
  l_Port :: PortNumber
  l_Protocol :: ProtocolType

text \<open>\<^verbatim>\<open>gatewayv1alpha2.ListenerStatus\<close>.\<close>

record ListenerStatus =
  ls_Name :: SectionName
  ls_SupportedKinds :: "RouteGroupKind list"
  ls_AttachedRoutes :: "32 word"
  ls_Conditions :: "Condition list"

text \<open>
  \<^verbatim>\<open>gatewayv1alpha2.Gateway\<close>, flattened: \<^verbatim>\<open>gateway.Spec.Listeners\<close> is the field
  \<open>Spec_Listeners\<close>, and so on.
\<close>

record Gateway =
  gw_Name :: string
  gw_Namespace :: string
  gw_Generation :: "64 word"
  Spec_GatewayClassName :: string
  Spec_Listeners :: "Listener list"
  Status_Conditions :: "Condition list"
  Status_Listeners :: "ListenerStatus list"

text \<open>\<^verbatim>\<open>gatewayv1alpha2.GatewayClass\<close>, with \<^verbatim>\<open>Spec.ControllerName\<close>.\<close>

record GatewayClass =
  gc_Name :: string
  Spec_ControllerName :: string

text \<open>
  A \<^verbatim>\<open>client.Object\<close> is a GatewayClass or an object of another type (its type name
  and its object name). A watch event is one of the four \<^verbatim>\<open>event\<close> structs or a
  value of another type (its type name).
\<close>

datatype Object = GatewayClassObject GatewayClass | OtherObject string string

fun GetName :: "Object \<Rightarrow> string" where
  "GetName (GatewayClassObject gwc) = gc_Name gwc"
| "GetName (OtherObject ty name) = name"

datatype WatchEvent =
    CreateEvent Object
  | DeleteEvent Object
  | GenericEvent Object
  | UpdateEvent Object Object
  | OtherEvent string

record NamespacedName =
  nn_Namespace :: string
  nn_Name :: string

record Request =
  req_NamespacedName :: NamespacedName

section \<open>Gateway utilities\<close>

definition maxConds :: nat where
  "maxConds = 8"

text \<open>\<^verbatim>\<open>isGatewayScheduled\<close>: the loop returns at the first matching condition.\<close>

fun isGatewayScheduled_loop :: "Condition list \<Rightarrow> bool" where
  "isGatewayScheduled_loop [] = False"
| "isGatewayScheduled_loop (cond # conds) =
     (if cond_Type cond = GatewayConditionScheduled \<and>
         cond_Reason cond = GatewayReasonScheduled \<and>
         cond_Status cond = ConditionTrue
      then True
      else isGatewayScheduled_loop conds)"

definition isGatewayScheduled :: "Gateway \<Rightarrow> bool" where
  "isGatewayScheduled gateway = isGatewayScheduled_loop (Status_Conditions gateway)"

text \<open>\<^verbatim>\<open>isGatewayReady\<close>.\<close>

fun isGatewayReady_loop :: "64 word \<Rightarrow> Condition list \<Rightarrow> bool" where
  "isGatewayReady_loop generation [] = False"
| "isGatewayReady_loop generation (cond # conds) =
     (if cond_Type cond = GatewayConditionReady \<and>
         cond_Reason cond = GatewayReasonReady \<and>
         cond_ObservedGeneration cond = generation
      then True
      else isGatewayReady_loop generation conds)"

definition isGatewayReady :: "Gateway \<Rightarrow> bool" where
  "isGatewayReady gateway = isGatewayReady_loop (gw_Generation gateway) (Status_Conditions gateway)"

text \<open>
  \<^verbatim>\<open>pruneGatewayStatusConds\<close>: the slice expression \<^verbatim>\<open>conds[len(conds)-maxConds:]\<close>
  drops the first \<^verbatim>\<open>len(conds)-maxConds\<close> entries. The Go function updates the Gateway
  behind the pointer and returns the pointer; the model returns the updated Gateway.
\<close>

definition pruneGatewayStatusConds :: "Gateway \<Rightarrow> Gateway" where
  "pruneGatewayStatusConds gateway =
     (if length (Status_Conditions gateway) > maxConds
      then gateway\<lparr>Status_Conditions :=
             drop (length (Status_Conditions gateway) - maxConds) (Status_Conditions gateway)\<rparr>
      else gateway)"

text \<open>
  \<^verbatim>\<open>reconcileGatewaysIfClassMatches\<close>: the named result \<^verbatim>\<open>recs\<close> starts nil and
  grows by \<^verbatim>\<open>append\<close>.
\<close>

fun reconcileGatewaysIfClassMatches_loop :: "Object \<Rightarrow> Gateway list \<Rightarrow> Request list \<Rightarrow> Request list" where
  "reconcileGatewaysIfClassMatches_loop gatewayClass [] recs = recs"
| "reconcileGatewaysIfClassMatches_loop gatewayClass (gateway # gateways) recs =
     reconcileGatewaysIfClassMatches_loop gatewayClass gateways
       (if Spec_GatewayClassName gateway = GetName gatewayClass
        then recs @ [\<lparr>req_NamespacedName =
                        \<lparr>nn_Namespace = gw_Namespace gateway, nn_Name = gw_Name gateway\<rparr>\<rparr>]
        else recs)"

definition reconcileGatewaysIfClassMatches :: "Object \<Rightarrow> Gateway list \<Rightarrow> Request list" where
  "reconcileGatewaysIfClassMatches gatewayClass gateways =
     reconcileGatewaysIfClassMatches_loop gatewayClass gateways []"

section \<open>Watch predicate helpers\<close>

text \<open>
  \<^verbatim>\<open>isGatewayClassEventInClass\<close>. The package constant \<^verbatim>\<open>ControllerName\<close> is
  declared outside the file and is a parameter here. The logger is modelled by the list
  of the errors logged, returned with the result.
\<close>

datatype LogEntry = InvalidEventType string | InvalidObjectType string

fun isGatewayClassEventInClass_loop :: "string \<Rightarrow> Object list \<Rightarrow> LogEntry list \<Rightarrow> bool \<times> LogEntry list" where
  "isGatewayClassEventInClass_loop ControllerName [] log = (False, log)"
| "isGatewayClassEventInClass_loop ControllerName (obj # objs) log =
     (case obj of
        OtherObject ty name \<Rightarrow>
          isGatewayClassEventInClass_loop ControllerName objs (log @ [InvalidObjectType ty])
      | GatewayClassObject gwc \<Rightarrow>
          if Spec_ControllerName gwc = ControllerName then (True, log)
          else isGatewayClassEventInClass_loop ControllerName objs log)"

fun isGatewayClassEventInClass :: "string \<Rightarrow> WatchEvent \<Rightarrow> bool \<times> LogEntry list" where
  "isGatewayClassEventInClass ControllerName (CreateEvent obj) =
     isGatewayClassEventInClass_loop ControllerName [obj] []"
| "isGatewayClassEventInClass ControllerName (DeleteEvent obj) =
     isGatewayClassEventInClass_loop ControllerName [obj] []"
| "isGatewayClassEventInClass ControllerName (GenericEvent obj) =
     isGatewayClassEventInClass_loop ControllerName [obj] []"
| "isGatewayClassEventInClass ControllerName (UpdateEvent objOld objNew) =
     isGatewayClassEventInClass_loop ControllerName [objOld, objNew] []"
| "isGatewayClassEventInClass ControllerName (OtherEvent ty) =
     (False, [InvalidEventType ty])"

section \<open>Listener status\<close>

text \<open>
  Go maps are partial functions. Reading a missing key of a map of maps gives the nil
  map, which reads as an empty map; \<^verbatim>\<open>len\<close> of a map is its number of keys. The
  code creates an inner map before it writes to it, so a write goes to an existing map.
\<close>

type_synonym protocolsMap = "ProtocolType \<rightharpoonup> (PortNumber \<rightharpoonup> bool)"
type_synonym portsToProtocolMap = "PortNumber \<rightharpoonup> ProtocolType"
type_synonym portsToHostnamesMap = "PortNumber \<rightharpoonup> (Hostname \<rightharpoonup> SectionName)"
type_synonym claims = "portsToProtocolMap \<times> portsToHostnamesMap"

definition index_map :: "('k \<rightharpoonup> ('a \<rightharpoonup> 'b)) \<Rightarrow> 'k \<Rightarrow> ('a \<rightharpoonup> 'b)" where
  "index_map m k = (case m k of None \<Rightarrow> Map.empty | Some inner \<Rightarrow> inner)"

definition len_map :: "('a \<rightharpoonup> 'b) \<Rightarrow> nat" where
  "len_map m = card (dom m)"

text \<open>The index of the previous listener statuses by name (lines 104-107).\<close>

fun existingListenerStatuses_loop ::
  "ListenerStatus list \<Rightarrow> (SectionName \<rightharpoonup> ListenerStatus) \<Rightarrow> (SectionName \<rightharpoonup> ListenerStatus)" where
  "existingListenerStatuses_loop [] existingListenerStatuses = existingListenerStatuses"
| "existingListenerStatuses_loop (listenerStatus # rest) existingListenerStatuses =
     existingListenerStatuses_loop rest
       (existingListenerStatuses(ls_Name listenerStatus \<mapsto> listenerStatus))"

text \<open>The protocols and ports Kong listens on (lines 109-115).\<close>

definition kongListens_body :: "Listener \<Rightarrow> protocolsMap \<Rightarrow> protocolsMap" where
  "kongListens_body listen protocols =
     (let protocols1 =
            (if protocols (l_Protocol listen) = None
             then protocols(l_Protocol listen \<mapsto> Map.empty)
             else protocols)
      in protocols1(l_Protocol listen \<mapsto>
           (index_map protocols1 (l_Protocol listen))(l_Port listen \<mapsto> True)))"

fun kongListens_loop :: "Listener list \<Rightarrow> protocolsMap \<Rightarrow> protocolsMap" where
  "kongListens_loop [] protocols = protocols"
| "kongListens_loop (listen # rest) protocols =
     kongListens_loop rest (kongListens_body listen protocols)"

text \<open>
  The first pass over the spec listeners (lines 124-149): each previous condition
  Conflicted=False of a listener claims the listener's port if it is free, and for
  HTTP, HTTPS and TLS writes the listener's name at its port and hostname.
\<close>

definition existingCondition_body :: "Listener \<Rightarrow> Condition \<Rightarrow> claims \<Rightarrow> claims" where
  "existingCondition_body listener condition cl =
     (case cl of (portsToProtocol, portsToHostnames) \<Rightarrow>
        if cond_Type condition = ListenerConditionConflicted \<and>
           cond_Status condition = ConditionFalse
        then
          let portsToProtocol1 =
                (if portsToProtocol (l_Port listener) = None
                 then portsToProtocol(l_Port listener \<mapsto> l_Protocol listener)
                 else portsToProtocol)
          in if l_Protocol listener = HTTPProtocolType \<or>
                l_Protocol listener = HTTPSProtocolType \<or>
                l_Protocol listener = TLSProtocolType
             then
               let portsToHostnames1 =
                     (if portsToHostnames (l_Port listener) = None
                      then portsToHostnames(l_Port listener \<mapsto> Map.empty)
                      else portsToHostnames);
                   hostname = (case l_Hostname listener of None \<Rightarrow> [] | Some h \<Rightarrow> h)
               in (portsToProtocol1,
                   portsToHostnames1(l_Port listener \<mapsto>
                     (index_map portsToHostnames1 (l_Port listener))(hostname \<mapsto> l_Name listener)))
             else (portsToProtocol1, portsToHostnames)
        else cl)"

fun existingConditions_loop :: "Listener \<Rightarrow> Condition list \<Rightarrow> claims \<Rightarrow> claims" where
  "existingConditions_loop listener [] cl = cl"
| "existingConditions_loop listener (condition # rest) cl =
     existingConditions_loop listener rest (existingCondition_body listener condition cl)"

fun existingNoConflict_loop ::
  "(SectionName \<rightharpoonup> ListenerStatus) \<Rightarrow> Listener list \<Rightarrow> claims \<Rightarrow> claims" where
  "existingNoConflict_loop existingListenerStatuses [] cl = cl"
| "existingNoConflict_loop existingListenerStatuses (listener # rest) cl =
     existingNoConflict_loop existingListenerStatuses rest
       (case existingListenerStatuses (l_Name listener) of
          None \<Rightarrow> cl
        | Some existingListenerStatus \<Rightarrow>
            existingConditions_loop listener (ls_Conditions existingListenerStatus) cl)"

text \<open>
  The second pass (lines 151-278). \<^verbatim>\<open>metav1.Now()\<close> reads the clock; the reading is the
  parameter \<open>now\<close>. A field the code does not set has Go's zero value (the empty
  message, written \<open>[]\<close>). The package variable \<^verbatim>\<open>supportedRouteGroupKinds\<close> is
  declared outside the file and is a parameter.

  \<open>hostnameCheck\<close> is the block of lines 188-213, for a listener whose protocol may
  share its port: it returns the HostnameConflict condition, if any, and the updated
  hostname claims. \<open>conflictCheck\<close> is the block of lines 165-223 around it: it returns
  the Conflicted condition appended to the empty condition list of the new status, if
  any, and the updated claims.
\<close>

definition hostnameCheck ::
  "64 word \<Rightarrow> Time \<Rightarrow> Listener \<Rightarrow> portsToHostnamesMap \<Rightarrow> Condition list \<times> portsToHostnamesMap" where
  "hostnameCheck generation now listener portsToHostnames =
     (let portsToHostnames1 =
            (if portsToHostnames (l_Port listener) = None
             then portsToHostnames(l_Port listener \<mapsto> Map.empty)
             else portsToHostnames);
          hostname = (case l_Hostname listener of None \<Rightarrow> [] | Some h \<Rightarrow> h)
      in (case index_map portsToHostnames1 (l_Port listener) hostname of
            None \<Rightarrow>
              ([], portsToHostnames1(l_Port listener \<mapsto>
                     (index_map portsToHostnames1 (l_Port listener))(hostname \<mapsto> l_Name listener)))
          | Some owner \<Rightarrow>
              if \<not> (owner = l_Name listener)
              then
                ([\<lparr>cond_Type = ListenerConditionConflicted,
                   cond_Status = ConditionTrue,
                   cond_ObservedGeneration = generation,
                   cond_LastTransitionTime = now,
                   cond_Reason = ListenerReasonHostnameConflict,
                   cond_Message = []\<rparr>],
                 portsToHostnames1)
              else ([], portsToHostnames1)))"

definition conflictCheck :: "64 word \<Rightarrow> Time \<Rightarrow> Listener \<Rightarrow> claims \<Rightarrow> Condition list \<times> claims" where
  "conflictCheck generation now listener cl =
     (case cl of (portsToProtocol, portsToHostnames) \<Rightarrow>
        (case portsToProtocol (l_Port listener) of
          None \<Rightarrow>
            ([], (portsToProtocol(l_Port listener \<mapsto> l_Protocol listener), portsToHostnames))
        | Some claimed \<Rightarrow>
            if claimed = TCPProtocolType \<or> claimed = UDPProtocolType
            then
              ([\<lparr>cond_Type = ListenerConditionConflicted,
                 cond_Status = ConditionTrue,
                 cond_ObservedGeneration = generation,
                 cond_LastTransitionTime = now,
                 cond_Reason = ListenerReasonProtocolConflict,
                 cond_Message = []\<rparr>],
               (portsToProtocol, portsToHostnames))
            else if claimed = l_Protocol listener \<or>
                    (l_Protocol listener = HTTPSProtocolType \<and> claimed = TLSProtocolType) \<or>
                    (l_Protocol listener = TLSProtocolType \<and> claimed = HTTPSProtocolType)
            then
              (fst (hostnameCheck generation now listener portsToHostnames),
               (portsToProtocol, snd (hostnameCheck generation now listener portsToHostnames)))
            else
              ([\<lparr>cond_Type = ListenerConditionConflicted,
                 cond_Status = ConditionTrue,
                 cond_ObservedGeneration = generation,
                 cond_LastTransitionTime = now,
                 cond_Reason = ListenerReasonProtocolConflict,
                 cond_Message = []\<rparr>],
               (portsToProtocol, portsToHostnames))))"

text \<open>The body of the second loop: the status of one listener and the updated claims.\<close>

definition listenerStatus_body ::
  "RouteGroupKind list \<Rightarrow> Time \<Rightarrow> 64 word \<Rightarrow> (SectionName \<rightharpoonup> ListenerStatus) \<Rightarrow> protocolsMap \<Rightarrow>
   Listener \<Rightarrow> claims \<Rightarrow> ListenerStatus \<times> claims" where
  "listenerStatus_body supportedRouteGroupKinds now generation existingListenerStatuses protocols listener cl =
     (let attachedRoutes =
            (case existingListenerStatuses (l_Name listener) of
               None \<Rightarrow> 0
             | Some existingListenerStatus \<Rightarrow> ls_AttachedRoutes existingListenerStatus);
          checked = conflictCheck generation now listener cl;
          conds1 = fst checked;
          conds2 =
            (if len_map (index_map protocols (l_Protocol listener)) = 0
             then conds1 @
               [\<lparr>cond_Type = ListenerConditionDetached,
                 cond_Status = ConditionTrue,
                 cond_ObservedGeneration = generation,
                 cond_LastTransitionTime = now,
                 cond_Reason = ListenerReasonUnsupportedProtocol,
                 cond_Message = ''no Kong listen with the requested protocol is configured''\<rparr>]
             else conds1);
          conds3 =
            (if index_map protocols (l_Protocol listener) (l_Port listener) = None
             then conds2 @
               [\<lparr>cond_Type = ListenerConditionDetached,
                 cond_Status = ConditionTrue,
                 cond_ObservedGeneration = generation,
                 cond_LastTransitionTime = now,
                 cond_Reason = ListenerReasonPortUnavailable,
                 cond_Message = ''no Kong listen with the requested protocol is configured for the requested port''\<rparr>]
             else conds2);
          conds4 =
            (if length conds3 = 0
             then conds3 @
               [\<lparr>cond_Type = ListenerConditionConflicted,
                 cond_Status = ConditionFalse,
                 cond_ObservedGeneration = generation,
                 cond_LastTransitionTime = now,
                 cond_Reason = ListenerReasonNoConflicts,
                 cond_Message = []\<rparr>,
                \<lparr>cond_Type = ListenerConditionReady,
                 cond_Status = ConditionTrue,
                 cond_ObservedGeneration = generation,
                 cond_LastTransitionTime = now,
                 cond_Reason = ListenerReasonReady,
                 cond_Message = ''the listener is ready and available for routing''\<rparr>]
             else conds3 @
               [\<lparr>cond_Type = ListenerConditionReady,
                 cond_Status = ConditionFalse,
                 cond_ObservedGeneration = generation,
                 cond_LastTransitionTime = now,
                 cond_Reason = ListenerReasonPending,
                 cond_Message = ''the listener is not ready and cannot route requests''\<rparr>])
      in (\<lparr>ls_Name = l_Name listener,
           ls_SupportedKinds = supportedRouteGroupKinds,
           ls_AttachedRoutes = attachedRoutes,
           ls_Conditions = conds4\<rparr>,
          snd checked))"

fun listenerStatus_loop ::
  "RouteGroupKind list \<Rightarrow> Time \<Rightarrow> 64 word \<Rightarrow> (SectionName \<rightharpoonup> ListenerStatus) \<Rightarrow> protocolsMap \<Rightarrow>
   Listener list \<Rightarrow> claims \<Rightarrow> ListenerStatus list \<Rightarrow> ListenerStatus list" where
  "listenerStatus_loop kinds now generation existing protocols [] cl statuses = statuses"
| "listenerStatus_loop kinds now generation existing protocols (listener # rest) cl statuses =
     listenerStatus_loop kinds now generation existing protocols rest
       (snd (listenerStatus_body kinds now generation existing protocols listener cl))
       (statuses @ [fst (listenerStatus_body kinds now generation existing protocols listener cl)])"

definition getListenerStatus ::
  "RouteGroupKind list \<Rightarrow> Time \<Rightarrow> Gateway \<Rightarrow> Listener list \<Rightarrow> ListenerStatus list" where
  "getListenerStatus supportedRouteGroupKinds now gateway kongListens =
     (let existingListenerStatuses =
            existingListenerStatuses_loop (Status_Listeners gateway) Map.empty;
          protocols = kongListens_loop kongListens Map.empty;
          cl = existingNoConflict_loop existingListenerStatuses (Spec_Listeners gateway)
                 (Map.empty, Map.empty)
      in listenerStatus_loop supportedRouteGroupKinds now (gw_Generation gateway)
           existingListenerStatuses protocols (Spec_Listeners gateway) cl [])"

section \<open>Observations on condition lists\<close>

text \<open>
  A condition list has a condition of a type, status and reason; has one of a type and
  status, whatever the reason; the number of its conditions of a type.
\<close>

fun hasCondition :: "string \<Rightarrow> ConditionStatus \<Rightarrow> string \<Rightarrow> Condition list \<Rightarrow> bool" where
  "hasCondition ty st reason [] = False"
| "hasCondition ty st reason (c # cs) =
     ((cond_Type c = ty \<and> cond_Status c = st \<and> cond_Reason c = reason) \<or>
      hasCondition ty st reason cs)"

fun hasConditionStatus :: "string \<Rightarrow> ConditionStatus \<Rightarrow> Condition list \<Rightarrow> bool" where
  "hasConditionStatus ty st [] = False"
| "hasConditionStatus ty st (c # cs) =
     ((cond_Type c = ty \<and> cond_Status c = st) \<or> hasConditionStatus ty st cs)"

fun countType :: "string \<Rightarrow> Condition list \<Rightarrow> nat" where
  "countType ty [] = 0"
| "countType ty (c # cs) = (if cond_Type c = ty then Suc (countType ty cs) else countType ty cs)"

text \<open>
  The hostname a listener claims (the empty hostname when it has none); whether the
  previous status of a listener, read through the index by name, has a condition
  Conflicted=False; the claims after the second loop has run over a list of listeners.
\<close>

definition listenerHostname :: "Listener \<Rightarrow> Hostname" where
  "listenerHostname listener = (case l_Hostname listener of None \<Rightarrow> [] | Some h \<Rightarrow> h)"

definition existingNoConflict :: "(SectionName \<rightharpoonup> ListenerStatus) \<Rightarrow> Listener \<Rightarrow> bool" where
  "existingNoConflict existingListenerStatuses listener =
     (case existingListenerStatuses (l_Name listener) of
        None \<Rightarrow> False
      | Some existingListenerStatus \<Rightarrow>
          hasConditionStatus ListenerConditionConflicted ConditionFalse
            (ls_Conditions existingListenerStatus))"

definition previousNoConflict :: "Gateway \<Rightarrow> Listener \<Rightarrow> bool" where
  "previousNoConflict gateway listener =
     existingNoConflict
       (existingListenerStatuses_loop (Status_Listeners gateway) Map.empty) listener"

fun claims_loop :: "64 word \<Rightarrow> Time \<Rightarrow> Listener list \<Rightarrow> claims \<Rightarrow> claims" where
  "claims_loop generation now [] cl = cl"
| "claims_loop generation now (listener # rest) cl =
     claims_loop generation now rest (snd (conflictCheck generation now listener cl))"

text \<open>
  The payload objects of a watch event: one object for a create, delete or generic
  event, the old and the new object for an update event, none for any other value.
\<close>

fun payloadObjects :: "WatchEvent \<Rightarrow> Object list" where
  "payloadObjects (CreateEvent obj) = [obj]"
| "payloadObjects (DeleteEvent obj) = [obj]"
| "payloadObjects (GenericEvent obj) = [obj]"
| "payloadObjects (UpdateEvent objOld objNew) = [objOld, objNew]"
| "payloadObjects (OtherEvent ty) = []"

text \<open>
  Two protocols are of one group when listeners of the two may share a port: both HTTP,
  or each HTTPS or TLS. \<open>existingClaims\<close> is the result of the first pass of
  \<open>getListenerStatus\<close>.
\<close>

definition sameProtocolGroup :: "ProtocolType \<Rightarrow> ProtocolType \<Rightarrow> bool" where
  "sameProtocolGroup a b =
     ((a = HTTPProtocolType \<and> b = HTTPProtocolType) \<or>
      ((a = HTTPSProtocolType \<or> a = TLSProtocolType) \<and>
       (b = HTTPSProtocolType \<or> b = TLSProtocolType)))"

definition existingClaims :: "Gateway \<Rightarrow> claims" where
  "existingClaims gateway =
     existingNoConflict_loop
       (existingListenerStatuses_loop (Status_Listeners gateway) Map.empty)
       (Spec_Listeners gateway) (Map.empty, Map.empty)"

section \<open>Gateway state predicates, pruning and fan-out\<close>

lemma isGatewayReady_loop_iff:
  "isGatewayReady_loop generation conds =
     (\<exists>c. c \<in> set conds \<and> cond_Type c = GatewayConditionReady \<and>
          cond_Reason c = GatewayReasonReady \<and> cond_ObservedGeneration c = generation)"
  by (induction conds) auto

lemma reconcile_loop_acc:
  "reconcileGatewaysIfClassMatches_loop gatewayClass gateways recs =
     recs @ map (\<lambda>g. \<lparr>req_NamespacedName = \<lparr>nn_Namespace = gw_Namespace g, nn_Name = gw_Name g\<rparr>\<rparr>)
              (filter (\<lambda>g. Spec_GatewayClassName g = GetName gatewayClass) gateways)"
  by (induction gateways arbitrary: recs) simp_all

lemma inClass_loop_fst:
  "fst (isGatewayClassEventInClass_loop cn objs log) =
     (\<exists>gwc. GatewayClassObject gwc \<in> set objs \<and> Spec_ControllerName gwc = cn)"
  by (induction objs arbitrary: log) (auto split: Object.splits)

text \<open>
  C1. The claim asks for a Ready condition with status True. \<open>isGatewayReady\<close> compares
  type, reason and observed generation, and never reads the status
  (\<open>isGatewayReady_loop_iff\<close>), while \<open>isGatewayScheduled\<close> beside it does compare the
  status. A Gateway at generation 4 whose only condition is Ready, reason Ready, status
  False, observed generation 4 is reported ready.
\<close>

theorem isGatewayReady_status_false:
  "isGatewayReady
     \<lparr>gw_Name = ''gw'', gw_Namespace = ''default'', gw_Generation = 4,
      Spec_GatewayClassName = ''kong'', Spec_Listeners = [],
      Status_Conditions =
        [\<lparr>cond_Type = GatewayConditionReady, cond_Status = ConditionFalse,
          cond_ObservedGeneration = 4, cond_LastTransitionTime = 0,
          cond_Reason = GatewayReasonReady, cond_Message = []\<rparr>],
      Status_Listeners = []\<rparr>"
  by (simp add: isGatewayReady_def)

text \<open>
  C7. \<open>pruneGatewayStatusConds\<close> returns the Gateway unchanged when it has at most 8
  conditions; otherwise it changes only the conditions, to the last 8 of them in their
  order (the list without its first \<open>length - 8\<close> entries). Pruning twice is pruning once.
\<close>

theorem pruneGatewayStatusConds_keeps_last:
  "(length (Status_Conditions gateway) \<le> 8 \<longrightarrow> pruneGatewayStatusConds gateway = gateway) \<and>
   (8 < length (Status_Conditions gateway) \<longrightarrow>
      pruneGatewayStatusConds gateway =
        gateway\<lparr>Status_Conditions :=
          drop (length (Status_Conditions gateway) - 8) (Status_Conditions gateway)\<rparr> \<and>
      length (Status_Conditions (pruneGatewayStatusConds gateway)) = 8) \<and>
   pruneGatewayStatusConds (pruneGatewayStatusConds gateway) = pruneGatewayStatusConds gateway"
  by (simp add: pruneGatewayStatusConds_def maxConds_def)

theorem pruneGatewayStatusConds_keeps_last_witness:
  "(let c = (\<lambda>n. \<lparr>cond_Type = ''Example'', cond_Status = ConditionTrue,
                    cond_ObservedGeneration = 1, cond_LastTransitionTime = n,
                    cond_Reason = ''Example'', cond_Message = []\<rparr>);
        g = (\<lambda>cs. \<lparr>gw_Name = ''gw'', gw_Namespace = ''default'', gw_Generation = 1,
                    Spec_GatewayClassName = ''kong'', Spec_Listeners = [],
                    Status_Conditions = cs, Status_Listeners = []\<rparr>)
    in 8 < length (Status_Conditions (g (map c [0, 1, 2, 3, 4, 5, 6, 7, 8, 9, 10, 11]))) \<and>
       Status_Conditions (pruneGatewayStatusConds (g (map c [0, 1, 2, 3, 4, 5, 6, 7, 8, 9, 10, 11]))) =
         map c [4, 5, 6, 7, 8, 9, 10, 11] \<and>
       length (Status_Conditions (g (map c [0, 1, 2, 3, 4]))) \<le> 8 \<and>
       pruneGatewayStatusConds (g (map c [0, 1, 2, 3, 4])) = g (map c [0, 1, 2, 3, 4]))"
  using pruneGatewayStatusConds_keeps_last
    [of "\<lparr>gw_Name = ''gw'', gw_Namespace = ''default'', gw_Generation = 1,
          Spec_GatewayClassName = ''kong'', Spec_Listeners = [],
          Status_Conditions =
            map (\<lambda>n. \<lparr>cond_Type = ''Example'', cond_Status = ConditionTrue,
                    cond_ObservedGeneration = 1, cond_LastTransitionTime = n,
                    cond_Reason = ''Example'', cond_Message = []\<rparr>)
              [0, 1, 2, 3, 4, 5, 6, 7, 8, 9, 10, 11],
          Status_Listeners = []\<rparr>"]
    pruneGatewayStatusConds_keeps_last
    [of "\<lparr>gw_Name = ''gw'', gw_Namespace = ''default'', gw_Generation = 1,
          Spec_GatewayClassName = ''kong'', Spec_Listeners = [],
          Status_Conditions =
            map (\<lambda>n. \<lparr>cond_Type = ''Example'', cond_Status = ConditionTrue,
                    cond_ObservedGeneration = 1, cond_LastTransitionTime = n,
                    cond_Reason = ''Example'', cond_Message = []\<rparr>)
              [0, 1, 2, 3, 4],
          Status_Listeners = []\<rparr>"]
  by (simp add: Let_def)

text \<open>
  C9. \<open>reconcileGatewaysIfClassMatches\<close> returns, in the order of the input list, one
  request with the namespace and name of each Gateway whose class name is the name of
  the class object, and nothing else.
\<close>

theorem reconcileGatewaysIfClassMatches_filter:
  "reconcileGatewaysIfClassMatches gatewayClass gateways =
     map (\<lambda>g. \<lparr>req_NamespacedName = \<lparr>nn_Namespace = gw_Namespace g, nn_Name = gw_Name g\<rparr>\<rparr>)
       (filter (\<lambda>g. Spec_GatewayClassName g = GetName gatewayClass) gateways)"
  by (simp add: reconcileGatewaysIfClassMatches_def reconcile_loop_acc)

text \<open>
  C8. \<open>isGatewayClassEventInClass\<close> returns true exactly when one of the payload
  objects of the event is a GatewayClass whose controller name is this controller's. It
  is total: a value that is none of the four events, and an event whose objects are not
  GatewayClasses, give false.
\<close>

theorem isGatewayClassEventInClass_payload:
  "fst (isGatewayClassEventInClass ControllerName ev) =
     (\<exists>gwc. GatewayClassObject gwc \<in> set (payloadObjects ev) \<and>
            Spec_ControllerName gwc = ControllerName) \<and>
   \<not> fst (isGatewayClassEventInClass ControllerName (OtherEvent ty)) \<and>
   \<not> fst (isGatewayClassEventInClass ControllerName (CreateEvent (OtherObject t1 n1))) \<and>
   \<not> fst (isGatewayClassEventInClass ControllerName (DeleteEvent (OtherObject t1 n1))) \<and>
   \<not> fst (isGatewayClassEventInClass ControllerName (GenericEvent (OtherObject t1 n1))) \<and>
   \<not> fst (isGatewayClassEventInClass ControllerName (UpdateEvent (OtherObject t1 n1) (OtherObject t2 n2)))"
proof -
  have main: "fst (isGatewayClassEventInClass ControllerName e) =
     (\<exists>gwc. GatewayClassObject gwc \<in> set (payloadObjects e) \<and>
            Spec_ControllerName gwc = ControllerName)" for e
    by (cases e) (simp_all only: isGatewayClassEventInClass.simps payloadObjects.simps
        inClass_loop_fst, simp_all)
  show ?thesis
    by (simp add: main)
qed

section \<open>Listener status: the two passes\<close>

subsection \<open>Condition lists\<close>

lemma hasCondition_append:
  "hasCondition ty st r (xs @ ys) = (hasCondition ty st r xs \<or> hasCondition ty st r ys)"
  by (induction xs) auto

lemma hasConditionStatus_append:
  "hasConditionStatus ty st (xs @ ys) = (hasConditionStatus ty st xs \<or> hasConditionStatus ty st ys)"
  by (induction xs) auto

subsection \<open>The second loop\<close>

lemma snd_listenerStatus_body:
  "snd (listenerStatus_body k n g e p l cl) = snd (conflictCheck g n l cl)"
  by (simp add: listenerStatus_body_def Let_def)

lemma listenerStatus_loop_acc:
  "listenerStatus_loop k n g e p ls cl acc = acc @ listenerStatus_loop k n g e p ls cl []"
proof (induction ls arbitrary: cl acc)
  case Nil
  show ?case by simp
next
  case (Cons l ls)
  show ?case
    using Cons.IH [of "snd (listenerStatus_body k n g e p l cl)"
                      "acc @ [fst (listenerStatus_body k n g e p l cl)]"]
          Cons.IH [of "snd (listenerStatus_body k n g e p l cl)"
                      "[fst (listenerStatus_body k n g e p l cl)]"]
    by simp
qed

lemma listenerStatus_loop_nth:
  "i < length ls \<Longrightarrow>
   listenerStatus_loop k n g e p ls cl [] ! i =
     fst (listenerStatus_body k n g e p (ls ! i) (claims_loop g n (take i ls) cl))"
proof (induction ls arbitrary: cl i)
  case Nil
  then show ?case by simp
next
  case (Cons l ls)
  have unfold: "listenerStatus_loop k n g e p (l # ls) cl [] =
      fst (listenerStatus_body k n g e p l cl) #
      listenerStatus_loop k n g e p ls (snd (listenerStatus_body k n g e p l cl)) []"
    using listenerStatus_loop_acc [of k n g e p ls "snd (listenerStatus_body k n g e p l cl)"
        "[fst (listenerStatus_body k n g e p l cl)]"]
    by simp
  show ?case
  proof (cases i)
    case 0
    then show ?thesis by (simp only: unfold nth_Cons_0 take_0 claims_loop.simps)
  next
    case (Suc m)
    with Cons.prems have "m < length ls" by simp
    from Cons.IH [OF this] Suc show ?thesis
      by (simp only: unfold nth_Cons_Suc take_Suc_Cons claims_loop.simps snd_listenerStatus_body)
  qed
qed

lemma body_Conflicted_True:
  "hasConditionStatus ListenerConditionConflicted ConditionTrue
     (ls_Conditions (fst (listenerStatus_body k n g e p l cl))) =
   hasConditionStatus ListenerConditionConflicted ConditionTrue (fst (conflictCheck g n l cl))"
  by (simp add: listenerStatus_body_def Let_def hasConditionStatus_append)

lemma body_Conflicted_reason:
  "hasCondition ListenerConditionConflicted ConditionTrue r
     (ls_Conditions (fst (listenerStatus_body k n g e p l cl))) =
   hasCondition ListenerConditionConflicted ConditionTrue r (fst (conflictCheck g n l cl))"
  by (simp add: listenerStatus_body_def Let_def hasCondition_append)

lemma index_map_fresh:
  "index_map (if m k = None then m(k \<mapsto> Map.empty) else m) = index_map m"
  by (rule ext) (simp add: index_map_def)

lemma index_map_upd:
  "index_map (m(k \<mapsto> v)) p = (if p = k then v else index_map m p)"
  by (simp add: index_map_def)

lemma fst_hostnameCheck:
  "fst (hostnameCheck g n l pth) =
     (case index_map pth (l_Port l) (listenerHostname l) of
        None \<Rightarrow> []
      | Some owner \<Rightarrow>
          if owner = l_Name l then []
          else [\<lparr>cond_Type = ListenerConditionConflicted,
                 cond_Status = ConditionTrue,
                 cond_ObservedGeneration = g,
                 cond_LastTransitionTime = n,
                 cond_Reason = ListenerReasonHostnameConflict,
                 cond_Message = []\<rparr>])"
  unfolding hostnameCheck_def listenerHostname_def [symmetric]
  by (simp add: Let_def index_map_fresh split: option.split)

lemma snd_hostnameCheck:
  "index_map (snd (hostnameCheck g n l pth)) p h =
     (if p = l_Port l \<and> h = listenerHostname l \<and>
         index_map pth (l_Port l) (listenerHostname l) = None
      then Some (l_Name l)
      else index_map pth p h)"
  unfolding hostnameCheck_def listenerHostname_def [symmetric]
  by (auto simp: Let_def index_map_fresh index_map_upd index_map_def split: option.split)

lemma fst_snd_conflictCheck:
  "fst (snd (conflictCheck g n l cl)) =
     (case fst cl (l_Port l) of None \<Rightarrow> (fst cl)(l_Port l \<mapsto> l_Protocol l) | Some q \<Rightarrow> fst cl)"
  by (cases cl) (simp add: conflictCheck_def split: option.split)


lemma conflictCheck_unclaimed:
  "fst cl (l_Port l) = None \<Longrightarrow> fst (conflictCheck g n l cl) = []"
  by (cases cl) (simp add: conflictCheck_def)

lemma conflictCheck_keeps_port:
  "fst cl p = Some q \<Longrightarrow> fst (snd (conflictCheck g n l cl)) p = Some q"
  by (auto simp: fst_snd_conflictCheck split: option.split)

lemma conflictCheck_other_port:
  "l_Port l \<noteq> p \<Longrightarrow> fst (snd (conflictCheck g n l cl)) p = fst cl p"
  by (simp add: fst_snd_conflictCheck split: option.split)

lemma conflictCheck_claims_port:
  "fst cl (l_Port l) = None \<Longrightarrow>
   fst (snd (conflictCheck g n l cl)) (l_Port l) = Some (l_Protocol l)"
  by (simp add: fst_snd_conflictCheck)

lemma conflictCheck_keeps_owner:
  "index_map (snd cl) p h = Some owner \<Longrightarrow>
   index_map (snd (snd (conflictCheck g n l cl))) p h = Some owner"
  by (cases cl) (auto simp: conflictCheck_def snd_hostnameCheck split: option.split)

lemma conflictCheck_protocol_conflict:
  "fst cl (l_Port l) = Some q \<Longrightarrow>
   q = TCPProtocolType \<or> q = UDPProtocolType \<or>
     (q \<noteq> l_Protocol l \<and>
      (l_Protocol l \<noteq> HTTPSProtocolType \<or> q \<noteq> TLSProtocolType) \<and>
      (l_Protocol l \<noteq> TLSProtocolType \<or> q \<noteq> HTTPSProtocolType)) \<Longrightarrow>
   fst (conflictCheck g n l cl) =
     [\<lparr>cond_Type = ListenerConditionConflicted,
       cond_Status = ConditionTrue,
       cond_ObservedGeneration = g,
       cond_LastTransitionTime = n,
       cond_Reason = ListenerReasonProtocolConflict,
       cond_Message = []\<rparr>]"
  by (cases cl) (auto simp: conflictCheck_def)

lemma conflictCheck_owner:
  "fst cl (l_Port l) = Some q \<Longrightarrow>
   q \<noteq> TCPProtocolType \<Longrightarrow> q \<noteq> UDPProtocolType \<Longrightarrow>
   q = l_Protocol l \<or>
     (l_Protocol l = HTTPSProtocolType \<and> q = TLSProtocolType) \<or>
     (l_Protocol l = TLSProtocolType \<and> q = HTTPSProtocolType) \<Longrightarrow>
   index_map (snd cl) (l_Port l) (listenerHostname l) = Some owner \<Longrightarrow>
   fst (conflictCheck g n l cl) =
     (if owner = l_Name l then []
      else [\<lparr>cond_Type = ListenerConditionConflicted,
             cond_Status = ConditionTrue,
             cond_ObservedGeneration = g,
             cond_LastTransitionTime = n,
             cond_Reason = ListenerReasonHostnameConflict,
             cond_Message = []\<rparr>])"
  by (cases cl) (auto simp: conflictCheck_def fst_hostnameCheck)

lemma conflictCheck_free_hostname:
  "fst cl (l_Port l) = Some q \<Longrightarrow>
   q \<noteq> TCPProtocolType \<Longrightarrow> q \<noteq> UDPProtocolType \<Longrightarrow>
   q = l_Protocol l \<or>
     (l_Protocol l = HTTPSProtocolType \<and> q = TLSProtocolType) \<or>
     (l_Protocol l = TLSProtocolType \<and> q = HTTPSProtocolType) \<Longrightarrow>
   index_map (snd cl) (l_Port l) (listenerHostname l) = None \<Longrightarrow>
   fst (conflictCheck g n l cl) = []"
  by (cases cl) (auto simp: conflictCheck_def fst_hostnameCheck)

lemma claims_loop_keeps_port:
  "fst cl p = Some q \<Longrightarrow> fst (claims_loop g n ls cl) p = Some q"
  by (induction ls arbitrary: cl) (simp_all add: conflictCheck_keeps_port)

lemma claims_loop_other_ports:
  "\<forall>l \<in> set ls. l_Port l \<noteq> p \<Longrightarrow> fst (claims_loop g n ls cl) p = fst cl p"
  by (induction ls arbitrary: cl) (simp_all add: conflictCheck_other_port)

lemma claims_loop_keeps_owner:
  "index_map (snd cl) p h = Some owner \<Longrightarrow>
   index_map (snd (claims_loop g n ls cl)) p h = Some owner"
  by (induction ls arbitrary: cl) (simp_all add: conflictCheck_keeps_owner)

lemma claims_loop_append:
  "claims_loop g n (xs @ ys) cl = claims_loop g n ys (claims_loop g n xs cl)"
  by (induction xs arbitrary: cl) simp_all

subsection \<open>The first loop\<close>

lemma fst_existingCondition_body:
  "fst (existingCondition_body l c cl) =
     (if cond_Type c = ListenerConditionConflicted \<and> cond_Status c = ConditionFalse
      then (case fst cl (l_Port l) of
              None \<Rightarrow> (fst cl)(l_Port l \<mapsto> l_Protocol l)
            | Some q \<Rightarrow> fst cl)
      else fst cl)"
  by (cases cl) (simp add: existingCondition_body_def Let_def split: option.split)

lemma snd_existingCondition_body:
  "index_map (snd (existingCondition_body l c cl)) p h =
     (if cond_Type c = ListenerConditionConflicted \<and> cond_Status c = ConditionFalse \<and>
         (l_Protocol l = HTTPProtocolType \<or> l_Protocol l = HTTPSProtocolType \<or>
          l_Protocol l = TLSProtocolType) \<and>
         p = l_Port l \<and> h = listenerHostname l
      then Some (l_Name l)
      else index_map (snd cl) p h)"
  unfolding existingCondition_body_def listenerHostname_def [symmetric]
  by (cases cl) (auto simp: Let_def index_map_fresh index_map_upd)

lemma existingConditions_loop_skip:
  "\<not> hasConditionStatus ListenerConditionConflicted ConditionFalse conds \<Longrightarrow>
   existingConditions_loop l conds cl = cl"
  by (induction conds arbitrary: cl) (auto simp: existingCondition_body_def split: prod.split)

lemma existingCondition_body_keeps_port:
  "fst cl p = Some q \<Longrightarrow> fst (existingCondition_body l c cl) p = Some q"
  by (auto simp: fst_existingCondition_body split: option.split)

lemma existingCondition_body_other_port:
  "l_Port l \<noteq> p \<Longrightarrow> fst (existingCondition_body l c cl) p = fst cl p"
  by (auto simp: fst_existingCondition_body split: option.split)

lemma existingConditions_loop_keeps_port:
  "fst cl p = Some q \<Longrightarrow> fst (existingConditions_loop l conds cl) p = Some q"
  by (induction conds arbitrary: cl) (simp_all add: existingCondition_body_keeps_port)

lemma existingConditions_loop_other_port:
  "l_Port l \<noteq> p \<Longrightarrow>
   fst (existingConditions_loop l conds cl) p = fst cl p \<and>
   index_map (snd (existingConditions_loop l conds cl)) p h = index_map (snd cl) p h"
  by (induction conds arbitrary: cl)
     (simp_all add: existingCondition_body_other_port snd_existingCondition_body)

lemma existingConditions_loop_same_owner:
  "index_map (snd cl) (l_Port l) (listenerHostname l) = Some (l_Name l) \<Longrightarrow>
   index_map (snd (existingConditions_loop l conds cl)) (l_Port l) (listenerHostname l) =
     Some (l_Name l)"
  by (induction conds arbitrary: cl) (simp_all add: snd_existingCondition_body)

lemma existingConditions_loop_port:
  "hasConditionStatus ListenerConditionConflicted ConditionFalse conds \<Longrightarrow>
   fst cl (l_Port l) = None \<Longrightarrow>
   fst (existingConditions_loop l conds cl) (l_Port l) = Some (l_Protocol l)"
proof (induction conds arbitrary: cl)
  case Nil
  then show ?case by simp
next
  case (Cons c conds)
  show ?case
  proof (cases "cond_Type c = ListenerConditionConflicted \<and> cond_Status c = ConditionFalse")
    case True
    with Cons.prems(2)
    have "fst (existingCondition_body l c cl) (l_Port l) = Some (l_Protocol l)"
      by (simp add: fst_existingCondition_body)
    then show ?thesis
      by (simp add: existingConditions_loop_keeps_port)
  next
    case False
    with Cons.prems have more: "hasConditionStatus ListenerConditionConflicted ConditionFalse conds"
      by auto
    from False Cons.prems(2) have "fst (existingCondition_body l c cl) (l_Port l) = None"
      by (auto simp: fst_existingCondition_body)
    from Cons.IH [OF more this] show ?thesis by simp
  qed
qed

lemma existingConditions_loop_owner:
  "hasConditionStatus ListenerConditionConflicted ConditionFalse conds \<Longrightarrow>
   l_Protocol l = HTTPProtocolType \<or> l_Protocol l = HTTPSProtocolType \<or>
   l_Protocol l = TLSProtocolType \<Longrightarrow>
   index_map (snd (existingConditions_loop l conds cl)) (l_Port l) (listenerHostname l) =
     Some (l_Name l)"
proof (induction conds arbitrary: cl)
  case Nil
  then show ?case by simp
next
  case (Cons c conds)
  show ?case
  proof (cases "cond_Type c = ListenerConditionConflicted \<and> cond_Status c = ConditionFalse")
    case True
    with Cons.prems(2)
    have "index_map (snd (existingCondition_body l c cl)) (l_Port l) (listenerHostname l) =
        Some (l_Name l)"
      by (simp add: snd_existingCondition_body)
    then show ?thesis
      by (simp add: existingConditions_loop_same_owner)
  next
    case False
    with Cons.prems have "hasConditionStatus ListenerConditionConflicted ConditionFalse conds"
      by auto
    from Cons.IH [OF this Cons.prems(2)] show ?thesis by simp
  qed
qed

lemma in_set_takeD:
  "x \<in> set (take i xs) \<Longrightarrow> \<exists>k. k < i \<and> k < length xs \<and> x = xs ! k"
  by (auto simp: in_set_conv_nth)

lemma in_set_dropD:
  "x \<in> set (drop i xs) \<Longrightarrow> \<exists>k. i \<le> k \<and> k < length xs \<and> x = xs ! k"
proof -
  assume "x \<in> set (drop i xs)"
  then obtain m where m: "m < length (drop i xs)" "x = drop i xs ! m"
    by (auto simp: in_set_conv_nth)
  then have "i \<le> i + m \<and> i + m < length xs \<and> x = xs ! (i + m)"
    by auto
  then show ?thesis by blast
qed

lemma existingNoConflict_loop_append:
  "existingNoConflict_loop ex (xs @ ys) cl =
     existingNoConflict_loop ex ys (existingNoConflict_loop ex xs cl)"
  by (induction xs arbitrary: cl) simp_all

lemma existingNoConflict_loop_keeps_port:
  "fst cl p = Some q \<Longrightarrow> fst (existingNoConflict_loop ex ls cl) p = Some q"
  by (induction ls arbitrary: cl)
     (simp_all add: existingConditions_loop_keeps_port split: option.split)

lemma existingNoConflict_step_untouched:
  "\<not> (l_Port l = p \<and> existingNoConflict ex l) \<Longrightarrow>
   fst (case ex (l_Name l) of None \<Rightarrow> cl
        | Some s \<Rightarrow> existingConditions_loop l (ls_Conditions s) cl) p = fst cl p \<and>
   index_map (snd (case ex (l_Name l) of None \<Rightarrow> cl
        | Some s \<Rightarrow> existingConditions_loop l (ls_Conditions s) cl)) p h =
     index_map (snd cl) p h"
proof (cases "ex (l_Name l)")
  case None
  then show ?thesis by simp
next
  case (Some s)
  assume "\<not> (l_Port l = p \<and> existingNoConflict ex l)"
  then consider "l_Port l \<noteq> p"
    | "\<not> hasConditionStatus ListenerConditionConflicted ConditionFalse (ls_Conditions s)"
    using Some by (auto simp: existingNoConflict_def)
  then show ?thesis
  proof cases
    case 1
    then show ?thesis
      using existingConditions_loop_other_port [of l p "ls_Conditions s" cl h] Some by simp
  next
    case 2
    then show ?thesis
      using Some by (simp add: existingConditions_loop_skip)
  qed
qed

lemma existingNoConflict_loop_untouched:
  "\<forall>l \<in> set ls. \<not> (l_Port l = p \<and> existingNoConflict ex l) \<Longrightarrow>
   fst (existingNoConflict_loop ex ls cl) p = fst cl p \<and>
   index_map (snd (existingNoConflict_loop ex ls cl)) p h = index_map (snd cl) p h"
proof (induction ls arbitrary: cl)
  case Nil
  show ?case by simp
next
  case (Cons l ls)
  have step: "\<not> (l_Port l = p \<and> existingNoConflict ex l)"
    using Cons.prems by simp
  have rest: "\<forall>l \<in> set ls. \<not> (l_Port l = p \<and> existingNoConflict ex l)"
    using Cons.prems by simp
  show ?case
    using Cons.IH [OF rest] existingNoConflict_step_untouched [OF step, of cl h]
    by simp
qed

text \<open>The first listener with a previous Conflicted=False on a port claims the port.\<close>

lemma existingNoConflict_loop_first_claim:
  assumes i: "i < length ls"
    and nc: "existingNoConflict ex (ls ! i)"
    and before: "\<forall>k<i. \<not> (l_Port (ls ! k) = l_Port (ls ! i) \<and> existingNoConflict ex (ls ! k))"
    and free: "fst cl (l_Port (ls ! i)) = None"
  shows "fst (existingNoConflict_loop ex ls cl) (l_Port (ls ! i)) = Some (l_Protocol (ls ! i))"
proof -
  let ?p = "l_Port (ls ! i)"
  let ?cl1 = "existingNoConflict_loop ex (take i ls) cl"
  have split: "ls = take i ls @ ls ! i # drop (Suc i) ls"
    using i by (rule id_take_nth_drop)
  have "\<forall>l \<in> set (take i ls). \<not> (l_Port l = ?p \<and> existingNoConflict ex l)"
    using before by (auto dest!: in_set_takeD)
  then have free1: "fst ?cl1 ?p = None"
    using existingNoConflict_loop_untouched [of "take i ls" ?p ex cl] free by simp
  obtain s where s: "ex (l_Name (ls ! i)) = Some s"
    "hasConditionStatus ListenerConditionConflicted ConditionFalse (ls_Conditions s)"
    using nc by (auto simp: existingNoConflict_def split: option.splits)
  have "fst (existingConditions_loop (ls ! i) (ls_Conditions s) ?cl1) ?p =
      Some (l_Protocol (ls ! i))"
    using s(2) free1 by (rule existingConditions_loop_port)
  then have "fst (existingNoConflict_loop ex (ls ! i # drop (Suc i) ls) ?cl1) ?p =
      Some (l_Protocol (ls ! i))"
    using s(1) by (simp add: existingNoConflict_loop_keeps_port)
  then show ?thesis
    using existingNoConflict_loop_append [of ex "take i ls" "ls ! i # drop (Suc i) ls" cl] split
    by simp
qed

lemma existingConditions_loop_other_hostname:
  "\<not> (l_Port l = p \<and> listenerHostname l = h \<and>
      (l_Protocol l = HTTPProtocolType \<or> l_Protocol l = HTTPSProtocolType \<or>
       l_Protocol l = TLSProtocolType)) \<Longrightarrow>
   index_map (snd (existingConditions_loop l conds cl)) p h = index_map (snd cl) p h"
proof (induction conds arbitrary: cl)
  case Nil
  show ?case by simp
next
  case (Cons c conds)
  have "index_map (snd (existingCondition_body l c cl)) p h = index_map (snd cl) p h"
    using Cons.prems by (auto simp: snd_existingCondition_body)
  then show ?case
    using Cons.IH [OF Cons.prems] by simp
qed

lemma existingNoConflict_step_other_hostname:
  "\<not> (l_Port l = p \<and> listenerHostname l = h \<and>
      (l_Protocol l = HTTPProtocolType \<or> l_Protocol l = HTTPSProtocolType \<or>
       l_Protocol l = TLSProtocolType) \<and> existingNoConflict ex l) \<Longrightarrow>
   index_map (snd (case ex (l_Name l) of None \<Rightarrow> cl
        | Some s \<Rightarrow> existingConditions_loop l (ls_Conditions s) cl)) p h =
     index_map (snd cl) p h"
proof (cases "ex (l_Name l)")
  case None
  then show ?thesis by simp
next
  case (Some s)
  assume "\<not> (l_Port l = p \<and> listenerHostname l = h \<and>
      (l_Protocol l = HTTPProtocolType \<or> l_Protocol l = HTTPSProtocolType \<or>
       l_Protocol l = TLSProtocolType) \<and> existingNoConflict ex l)"
  then consider
      "\<not> (l_Port l = p \<and> listenerHostname l = h \<and>
          (l_Protocol l = HTTPProtocolType \<or> l_Protocol l = HTTPSProtocolType \<or>
           l_Protocol l = TLSProtocolType))"
    | "\<not> hasConditionStatus ListenerConditionConflicted ConditionFalse (ls_Conditions s)"
    using Some by (auto simp: existingNoConflict_def)
  then show ?thesis
  proof cases
    case 1
    then show ?thesis
      using existingConditions_loop_other_hostname [of l p h "ls_Conditions s" cl] Some
      by simp
  next
    case 2
    then show ?thesis
      using Some by (simp add: existingConditions_loop_skip)
  qed
qed

lemma existingNoConflict_loop_other_hostnames:
  "\<forall>l \<in> set ls.
     \<not> (l_Port l = p \<and> listenerHostname l = h \<and>
        (l_Protocol l = HTTPProtocolType \<or> l_Protocol l = HTTPSProtocolType \<or>
         l_Protocol l = TLSProtocolType) \<and> existingNoConflict ex l) \<Longrightarrow>
   index_map (snd (existingNoConflict_loop ex ls cl)) p h = index_map (snd cl) p h"
proof (induction ls arbitrary: cl)
  case Nil
  show ?case by simp
next
  case (Cons l ls)
  have step: "\<not> (l_Port l = p \<and> listenerHostname l = h \<and>
        (l_Protocol l = HTTPProtocolType \<or> l_Protocol l = HTTPSProtocolType \<or>
         l_Protocol l = TLSProtocolType) \<and> existingNoConflict ex l)"
    using Cons.prems by simp
  have rest: "\<forall>l \<in> set ls.
     \<not> (l_Port l = p \<and> listenerHostname l = h \<and>
        (l_Protocol l = HTTPProtocolType \<or> l_Protocol l = HTTPSProtocolType \<or>
         l_Protocol l = TLSProtocolType) \<and> existingNoConflict ex l)"
    using Cons.prems by simp
  show ?case
    using Cons.IH [OF rest] existingNoConflict_step_other_hostname [OF step, of cl]
    by simp
qed

text \<open>
  The last HTTP, HTTPS or TLS listener with a previous Conflicted=False on a port and
  hostname owns the hostname on the port.
\<close>

lemma existingNoConflict_loop_last_writer:
  assumes j: "j < length ls"
    and nc: "existingNoConflict ex (ls ! j)"
    and family: "l_Protocol (ls ! j) = HTTPProtocolType \<or> l_Protocol (ls ! j) = HTTPSProtocolType \<or>
       l_Protocol (ls ! j) = TLSProtocolType"
    and after: "\<forall>k<length ls. j < k \<longrightarrow>
       \<not> (l_Port (ls ! k) = l_Port (ls ! j) \<and>
          listenerHostname (ls ! k) = listenerHostname (ls ! j) \<and>
          (l_Protocol (ls ! k) = HTTPProtocolType \<or> l_Protocol (ls ! k) = HTTPSProtocolType \<or>
           l_Protocol (ls ! k) = TLSProtocolType) \<and>
          existingNoConflict ex (ls ! k))"
  shows "index_map (snd (existingNoConflict_loop ex ls cl)) (l_Port (ls ! j))
           (listenerHostname (ls ! j)) = Some (l_Name (ls ! j))"
proof -
  let ?p = "l_Port (ls ! j)"
  let ?h = "listenerHostname (ls ! j)"
  let ?cl1 = "existingNoConflict_loop ex (take j ls) cl"
  have split: "ls = take j ls @ ls ! j # drop (Suc j) ls"
    using j by (rule id_take_nth_drop)
  obtain s where s: "ex (l_Name (ls ! j)) = Some s"
    "hasConditionStatus ListenerConditionConflicted ConditionFalse (ls_Conditions s)"
    using nc by (auto simp: existingNoConflict_def split: option.splits)
  let ?cl2 = "existingConditions_loop (ls ! j) (ls_Conditions s) ?cl1"
  have owner: "index_map (snd ?cl2) ?p ?h = Some (l_Name (ls ! j))"
    using s(2) family by (rule existingConditions_loop_owner)
  have "\<forall>l \<in> set (drop (Suc j) ls).
      \<not> (l_Port l = ?p \<and> listenerHostname l = ?h \<and>
         (l_Protocol l = HTTPProtocolType \<or> l_Protocol l = HTTPSProtocolType \<or>
          l_Protocol l = TLSProtocolType) \<and> existingNoConflict ex l)"
  proof
    fix l
    assume "l \<in> set (drop (Suc j) ls)"
    then obtain k where k: "Suc j \<le> k" "k < length ls" "l = ls ! k"
      by (blast dest: in_set_dropD)
    then have "j < k" by simp
    with after k(2) have "\<not> (l_Port (ls ! k) = ?p \<and>
          listenerHostname (ls ! k) = ?h \<and>
          (l_Protocol (ls ! k) = HTTPProtocolType \<or> l_Protocol (ls ! k) = HTTPSProtocolType \<or>
           l_Protocol (ls ! k) = TLSProtocolType) \<and>
          existingNoConflict ex (ls ! k))"
      by blast
    then show "\<not> (l_Port l = ?p \<and> listenerHostname l = ?h \<and>
         (l_Protocol l = HTTPProtocolType \<or> l_Protocol l = HTTPSProtocolType \<or>
          l_Protocol l = TLSProtocolType) \<and> existingNoConflict ex l)"
      using k(3) by simp
  qed
  then have "index_map (snd (existingNoConflict_loop ex (drop (Suc j) ls) ?cl2)) ?p ?h =
      Some (l_Name (ls ! j))"
    using existingNoConflict_loop_other_hostnames [of "drop (Suc j) ls" ?p ?h ex ?cl2] owner
    by simp
  then have "index_map (snd (existingNoConflict_loop ex (ls ! j # drop (Suc j) ls) ?cl1)) ?p ?h =
      Some (l_Name (ls ! j))"
    using s(1) by simp
  then show ?thesis
    using existingNoConflict_loop_append [of ex "take j ls" "ls ! j # drop (Suc j) ls" cl] split
    by simp
qed

lemma getListenerStatus_nth:
  assumes "i < length (Spec_Listeners gw)"
  shows "getListenerStatus k n gw kong ! i =
     fst (listenerStatus_body k n (gw_Generation gw)
            (existingListenerStatuses_loop (Status_Listeners gw) Map.empty)
            (kongListens_loop kong Map.empty)
            (Spec_Listeners gw ! i)
            (claims_loop (gw_Generation gw) n (take i (Spec_Listeners gw)) (existingClaims gw)))"
  using assms
  by (simp add: getListenerStatus_def Let_def listenerStatus_loop_nth existingClaims_def)

lemma getListenerStatus_Conflicted_True:
  assumes "i < length (Spec_Listeners gw)"
  shows "hasConditionStatus ListenerConditionConflicted ConditionTrue
           (ls_Conditions (getListenerStatus k n gw kong ! i)) =
         hasConditionStatus ListenerConditionConflicted ConditionTrue
           (fst (conflictCheck (gw_Generation gw) n (Spec_Listeners gw ! i)
                  (claims_loop (gw_Generation gw) n (take i (Spec_Listeners gw))
                     (existingClaims gw))))"
  by (simp only: getListenerStatus_nth [OF assms] body_Conflicted_True)

lemma getListenerStatus_Conflicted_reason:
  assumes "i < length (Spec_Listeners gw)"
  shows "hasCondition ListenerConditionConflicted ConditionTrue r
           (ls_Conditions (getListenerStatus k n gw kong ! i)) =
         hasCondition ListenerConditionConflicted ConditionTrue r
           (fst (conflictCheck (gw_Generation gw) n (Spec_Listeners gw ! i)
                  (claims_loop (gw_Generation gw) n (take i (Spec_Listeners gw))
                     (existingClaims gw))))"
  by (simp only: getListenerStatus_nth [OF assms] body_Conflicted_reason)

lemma existingNoConflict_loop_no_status:
  "existingNoConflict_loop Map.empty ls cl = cl"
  by (induction ls arbitrary: cl) simp_all

lemma existingClaims_no_status:
  "Status_Listeners gw = [] \<Longrightarrow> existingClaims gw = (Map.empty, Map.empty)"
  by (simp add: existingClaims_def existingNoConflict_loop_no_status)

lemma claims_loop_first_on_port:
  assumes ij: "i < j" and j: "j \<le> length ls"
    and free: "fst cl (l_Port (ls ! i)) = None"
    and before: "\<forall>k<i. l_Port (ls ! k) \<noteq> l_Port (ls ! i)"
  shows "fst (claims_loop g n (take i ls) cl) (l_Port (ls ! i)) = None"
    and "fst (claims_loop g n (take j ls) cl) (l_Port (ls ! i)) = Some (l_Protocol (ls ! i))"
proof -
  let ?p = "l_Port (ls ! i)"
  have "\<forall>l \<in> set (take i ls). l_Port l \<noteq> ?p"
    using before by (auto dest!: in_set_takeD)
  then show none: "fst (claims_loop g n (take i ls) cl) ?p = None"
    using free by (simp add: claims_loop_other_ports)
  have i: "i < length ls" using ij j by simp
  have "take j ls = take (Suc i + (j - Suc i)) ls"
    using ij by simp
  also have "\<dots> = take (Suc i) ls @ take (j - Suc i) (drop (Suc i) ls)"
    by (rule take_add)
  also have "take (Suc i) ls = take i ls @ [ls ! i]"
    using i by (rule take_Suc_conv_app_nth)
  finally have split: "take j ls = take i ls @ ls ! i # take (j - Suc i) (drop (Suc i) ls)"
    by simp
  have "fst (snd (conflictCheck g n (ls ! i) (claims_loop g n (take i ls) cl))) ?p =
      Some (l_Protocol (ls ! i))"
    using none by (rule conflictCheck_claims_port)
  then show "fst (claims_loop g n (take j ls) cl) ?p = Some (l_Protocol (ls ! i))"
    by (simp add: split claims_loop_append claims_loop_keeps_port)
qed

lemma sameProtocolGroup_family:
  "sameProtocolGroup a b \<Longrightarrow>
   (a = HTTPProtocolType \<or> a = HTTPSProtocolType \<or> a = TLSProtocolType) \<and>
   (b = HTTPProtocolType \<or> b = HTTPSProtocolType \<or> b = TLSProtocolType) \<and>
   a \<noteq> TCPProtocolType \<and> a \<noteq> UDPProtocolType \<and>
   (a = b \<or> (b = HTTPSProtocolType \<and> a = TLSProtocolType) \<or>
            (b = TLSProtocolType \<and> a = HTTPSProtocolType)) \<and>
   (b = a \<or> (a = HTTPSProtocolType \<and> b = TLSProtocolType) \<or>
            (a = TLSProtocolType \<and> b = HTTPSProtocolType))"
  by (auto simp: sameProtocolGroup_def)

text \<open>
  What the second loop gives a listener whose port is claimed by a protocol of its group
  and whose hostname on the port has an owner.
\<close>

lemma getListenerStatus_owned_hostname:
  assumes m: "m < length (Spec_Listeners gw)"
    and port: "fst (existingClaims gw) (l_Port (Spec_Listeners gw ! m)) = Some q"
    and group: "sameProtocolGroup q (l_Protocol (Spec_Listeners gw ! m))"
    and owner: "index_map (snd (existingClaims gw)) (l_Port (Spec_Listeners gw ! m))
                  (listenerHostname (Spec_Listeners gw ! m)) = Some owner"
  shows "owner = l_Name (Spec_Listeners gw ! m) \<Longrightarrow>
           \<not> hasConditionStatus ListenerConditionConflicted ConditionTrue
               (ls_Conditions (getListenerStatus kinds now gw kongListens ! m))"
    and "owner \<noteq> l_Name (Spec_Listeners gw ! m) \<Longrightarrow>
           hasCondition ListenerConditionConflicted ConditionTrue ListenerReasonHostnameConflict
             (ls_Conditions (getListenerStatus kinds now gw kongListens ! m))"
proof -
  let ?l = "Spec_Listeners gw ! m"
  let ?g = "gw_Generation gw"
  let ?cl = "claims_loop ?g now (take m (Spec_Listeners gw)) (existingClaims gw)"
  have p: "fst ?cl (l_Port ?l) = Some q"
    using port by (rule claims_loop_keeps_port)
  have o: "index_map (snd ?cl) (l_Port ?l) (listenerHostname ?l) = Some owner"
    using owner by (rule claims_loop_keeps_owner)
  note fam = sameProtocolGroup_family [OF group]
  have q1: "q \<noteq> TCPProtocolType" and q2: "q \<noteq> UDPProtocolType"
    and q3: "q = l_Protocol ?l \<or>
       (l_Protocol ?l = HTTPSProtocolType \<and> q = TLSProtocolType) \<or>
       (l_Protocol ?l = TLSProtocolType \<and> q = HTTPSProtocolType)"
    using fam by blast+
  note res = conflictCheck_owner [OF p q1 q2 q3 o, of ?g now]
  show "owner = l_Name ?l \<Longrightarrow>
           \<not> hasConditionStatus ListenerConditionConflicted ConditionTrue
               (ls_Conditions (getListenerStatus kinds now gw kongListens ! m))"
    using res by (simp add: getListenerStatus_Conflicted_True [OF m])
  show "owner \<noteq> l_Name ?l \<Longrightarrow>
           hasCondition ListenerConditionConflicted ConditionTrue ListenerReasonHostnameConflict
             (ls_Conditions (getListenerStatus kinds now gw kongListens ! m))"
    using res by (simp add: getListenerStatus_Conflicted_reason [OF m])
qed

lemma sameProtocolGroup_refl:
  "a = HTTPProtocolType \<or> a = HTTPSProtocolType \<or> a = TLSProtocolType \<Longrightarrow>
   sameProtocolGroup a a"
  by (auto simp: sameProtocolGroup_def)

lemma sameProtocolGroup_trans:
  "sameProtocolGroup a b \<Longrightarrow> sameProtocolGroup b c \<Longrightarrow> sameProtocolGroup a c"
  by (auto simp: sameProtocolGroup_def)

lemma otherProtocolGroup:
  "sameProtocolGroup q a \<Longrightarrow>
   b = HTTPProtocolType \<or> b = HTTPSProtocolType \<or> b = TLSProtocolType \<Longrightarrow>
   \<not> sameProtocolGroup a b \<Longrightarrow>
   q \<noteq> b \<and> (b \<noteq> HTTPSProtocolType \<or> q \<noteq> TLSProtocolType) \<and>
   (b \<noteq> TLSProtocolType \<or> q \<noteq> HTTPSProtocolType)"
  by (auto simp: sameProtocolGroup_def)

text \<open>
  What the second loop gives a listener whose port is claimed by a protocol that may not
  share the port with its own.
\<close>

lemma getListenerStatus_other_protocol:
  assumes m: "m < length (Spec_Listeners gw)"
    and port: "fst (existingClaims gw) (l_Port (Spec_Listeners gw ! m)) = Some q"
    and other: "q = TCPProtocolType \<or> q = UDPProtocolType \<or>
       (q \<noteq> l_Protocol (Spec_Listeners gw ! m) \<and>
        (l_Protocol (Spec_Listeners gw ! m) \<noteq> HTTPSProtocolType \<or> q \<noteq> TLSProtocolType) \<and>
        (l_Protocol (Spec_Listeners gw ! m) \<noteq> TLSProtocolType \<or> q \<noteq> HTTPSProtocolType))"
  shows "hasCondition ListenerConditionConflicted ConditionTrue ListenerReasonProtocolConflict
           (ls_Conditions (getListenerStatus kinds now gw kongListens ! m))"
proof -
  let ?l = "Spec_Listeners gw ! m"
  let ?g = "gw_Generation gw"
  let ?cl = "claims_loop ?g now (take m (Spec_Listeners gw)) (existingClaims gw)"
  have p: "fst ?cl (l_Port ?l) = Some q"
    using port by (rule claims_loop_keeps_port)
  show ?thesis
    using conflictCheck_protocol_conflict [OF p other, of ?g now]
    by (simp add: getListenerStatus_Conflicted_reason [OF m])
qed

section \<open>Listener status: conditions of one type\<close>

text \<open>
  C2. The claim allows a listener status at most one condition of each type. When Kong
  has no listen of the listener's protocol, the test of line 225 appends
  Detached/UnsupportedProtocol and the test of line 235, which is not in an else branch,
  reads the port in the missing inner map, finds none and appends Detached/PortUnavailable
  too. For a Gateway with one HTTP listener on port 80 and an empty Kong listen set, the
  status of the listener has two Detached conditions.
\<close>

theorem getListenerStatus_two_Detached:
  "countType ListenerConditionDetached
     (ls_Conditions
        (getListenerStatus [] 0
           \<lparr>gw_Name = ''gw'', gw_Namespace = ''default'', gw_Generation = 1,
            Spec_GatewayClassName = ''kong'',
            Spec_Listeners =
              [\<lparr>l_Name = ''web'', l_Hostname = None, l_Port = 80,
                l_Protocol = HTTPProtocolType\<rparr>],
            Status_Conditions = [], Status_Listeners = []\<rparr>
           [] ! 0)) = 2"
  by (simp add: getListenerStatus_def listenerStatus_body_def conflictCheck_def hostnameCheck_def
      index_map_def len_map_def)

text \<open>
  C3. The claim makes the two Detached outcomes exclusive. For a TCP listener on port
  9000, with Kong listening on HTTP port 80 only (no TCP listen at all), the status of the
  listener has both Detached/UnsupportedProtocol and Detached/PortUnavailable: the second
  test of \<open>listenerStatus_body\<close> does not depend on the first.
\<close>

theorem getListenerStatus_Detached_both_reasons:
  "hasCondition ListenerConditionDetached ConditionTrue ListenerReasonUnsupportedProtocol
     (ls_Conditions
        (getListenerStatus [] 0
           \<lparr>gw_Name = ''gw'', gw_Namespace = ''default'', gw_Generation = 1,
            Spec_GatewayClassName = ''kong'',
            Spec_Listeners =
              [\<lparr>l_Name = ''stream'', l_Hostname = None, l_Port = 9000,
                l_Protocol = TCPProtocolType\<rparr>],
            Status_Conditions = [], Status_Listeners = []\<rparr>
           [\<lparr>l_Name = [], l_Hostname = None, l_Port = 80,
             l_Protocol = HTTPProtocolType\<rparr>] ! 0)) \<and>
   hasCondition ListenerConditionDetached ConditionTrue ListenerReasonPortUnavailable
     (ls_Conditions
        (getListenerStatus [] 0
           \<lparr>gw_Name = ''gw'', gw_Namespace = ''default'', gw_Generation = 1,
            Spec_GatewayClassName = ''kong'',
            Spec_Listeners =
              [\<lparr>l_Name = ''stream'', l_Hostname = None, l_Port = 9000,
                l_Protocol = TCPProtocolType\<rparr>],
            Status_Conditions = [], Status_Listeners = []\<rparr>
           [\<lparr>l_Name = [], l_Hostname = None, l_Port = 80,
             l_Protocol = HTTPProtocolType\<rparr>] ! 0))"
  by (simp add: getListenerStatus_def listenerStatus_body_def conflictCheck_def hostnameCheck_def
      index_map_def len_map_def kongListens_body_def)

section \<open>Listener status: conflicts\<close>

text \<open>
  The claim C4 as stated fails. With no previous status and a TCP listener followed by
  an HTTP listener on port 80, the TCP listener claims the free port and gets no
  ProtocolConflict condition. And when another HTTP listener precedes the two on the
  port, the port is claimed for HTTP and the HTTP listener of the two gets no
  Conflicted=True condition either.
\<close>

theorem getListenerStatus_first_claim_counterexample:
  "\<not> hasCondition ListenerConditionConflicted ConditionTrue ListenerReasonProtocolConflict
       (ls_Conditions
          (getListenerStatus [] 0
             \<lparr>gw_Name = ''gw'', gw_Namespace = ''default'', gw_Generation = 1,
              Spec_GatewayClassName = ''kong'',
              Spec_Listeners =
                [\<lparr>l_Name = ''stream'', l_Hostname = None, l_Port = 80,
                  l_Protocol = TCPProtocolType\<rparr>,
                 \<lparr>l_Name = ''web'', l_Hostname = None, l_Port = 80,
                  l_Protocol = HTTPProtocolType\<rparr>],
              Status_Conditions = [], Status_Listeners = []\<rparr>
             [\<lparr>l_Name = [], l_Hostname = None, l_Port = 80,
               l_Protocol = TCPProtocolType\<rparr>,
              \<lparr>l_Name = [], l_Hostname = None, l_Port = 80,
               l_Protocol = HTTPProtocolType\<rparr>] ! 0)) \<and>
   \<not> hasConditionStatus ListenerConditionConflicted ConditionTrue
       (ls_Conditions
          (getListenerStatus [] 0
             \<lparr>gw_Name = ''gw'', gw_Namespace = ''default'', gw_Generation = 1,
              Spec_GatewayClassName = ''kong'',
              Spec_Listeners =
                [\<lparr>l_Name = ''web'', l_Hostname = None, l_Port = 80,
                  l_Protocol = HTTPProtocolType\<rparr>,
                 \<lparr>l_Name = ''stream'', l_Hostname = None, l_Port = 80,
                  l_Protocol = TCPProtocolType\<rparr>,
                 \<lparr>l_Name = ''site'', l_Hostname = Some ''a.com'', l_Port = 80,
                  l_Protocol = HTTPProtocolType\<rparr>],
              Status_Conditions = [], Status_Listeners = []\<rparr>
             [\<lparr>l_Name = [], l_Hostname = None, l_Port = 80,
               l_Protocol = TCPProtocolType\<rparr>,
              \<lparr>l_Name = [], l_Hostname = None, l_Port = 80,
               l_Protocol = HTTPProtocolType\<rparr>] ! 2))"
  by (simp add: getListenerStatus_def listenerStatus_body_def conflictCheck_def hostnameCheck_def
      index_map_def len_map_def kongListens_body_def existingCondition_body_def)

text \<open>
  C4, amended. For a Gateway with no previous listener status whose spec has a TCP and an
  HTTP listener on one port, in either order, the earlier of the two being the first spec
  listener on that port: the later one gets Conflicted=True with reason ProtocolConflict,
  and the earlier one gets no Conflicted=True condition.
\<close>

theorem getListenerStatus_protocol_conflict_later:
  assumes empty: "Status_Listeners gw = []"
    and ij: "i < j" and j: "j < length (Spec_Listeners gw)"
    and port: "l_Port (Spec_Listeners gw ! i) = l_Port (Spec_Listeners gw ! j)"
    and first: "\<forall>k<i. l_Port (Spec_Listeners gw ! k) \<noteq> l_Port (Spec_Listeners gw ! i)"
    and protos:
      "(l_Protocol (Spec_Listeners gw ! i) = TCPProtocolType \<and>
        l_Protocol (Spec_Listeners gw ! j) = HTTPProtocolType) \<or>
       (l_Protocol (Spec_Listeners gw ! i) = HTTPProtocolType \<and>
        l_Protocol (Spec_Listeners gw ! j) = TCPProtocolType)"
  shows "\<not> hasConditionStatus ListenerConditionConflicted ConditionTrue
             (ls_Conditions (getListenerStatus kinds now gw kongListens ! i)) \<and>
         hasCondition ListenerConditionConflicted ConditionTrue ListenerReasonProtocolConflict
             (ls_Conditions (getListenerStatus kinds now gw kongListens ! j))"
proof -
  let ?ls = "Spec_Listeners gw"
  let ?g = "gw_Generation gw"
  let ?cl0 = "(Map.empty, Map.empty) :: claims"
  have i: "i < length ?ls" using ij j by simp
  have free: "fst ?cl0 (l_Port (?ls ! i)) = None" by simp
  have j': "j \<le> length ?ls" using j by simp
  note st = claims_loop_first_on_port [OF ij j' free first, of ?g now]
  have "fst (conflictCheck ?g now (?ls ! i) (claims_loop ?g now (take i ?ls) ?cl0)) = []"
    using st(1) by (rule conflictCheck_unclaimed)
  then have a: "\<not> hasConditionStatus ListenerConditionConflicted ConditionTrue
             (ls_Conditions (getListenerStatus kinds now gw kongListens ! i))"
    by (simp add: getListenerStatus_Conflicted_True [OF i] existingClaims_no_status [OF empty])
  have claimed: "fst (claims_loop ?g now (take j ?ls) ?cl0) (l_Port (?ls ! j)) =
      Some (l_Protocol (?ls ! i))"
    using st(2) port by simp
  have "fst (conflictCheck ?g now (?ls ! j) (claims_loop ?g now (take j ?ls) ?cl0)) =
     [\<lparr>cond_Type = ListenerConditionConflicted,
       cond_Status = ConditionTrue,
       cond_ObservedGeneration = ?g,
       cond_LastTransitionTime = now,
       cond_Reason = ListenerReasonProtocolConflict,
       cond_Message = []\<rparr>]"
    using claimed
  proof (rule conflictCheck_protocol_conflict)
    show "l_Protocol (?ls ! i) = TCPProtocolType \<or> l_Protocol (?ls ! i) = UDPProtocolType \<or>
      (l_Protocol (?ls ! i) \<noteq> l_Protocol (?ls ! j) \<and>
       (l_Protocol (?ls ! j) \<noteq> HTTPSProtocolType \<or> l_Protocol (?ls ! i) \<noteq> TLSProtocolType) \<and>
       (l_Protocol (?ls ! j) \<noteq> TLSProtocolType \<or> l_Protocol (?ls ! i) \<noteq> HTTPSProtocolType))"
      using protos by auto
  qed
  then have b: "hasCondition ListenerConditionConflicted ConditionTrue
      ListenerReasonProtocolConflict
      (ls_Conditions (getListenerStatus kinds now gw kongListens ! j))"
    by (simp add: getListenerStatus_Conflicted_reason [OF j] existingClaims_no_status [OF empty])
  from a b show ?thesis ..
qed

theorem getListenerStatus_protocol_conflict_later_witness:
  "\<not> hasConditionStatus ListenerConditionConflicted ConditionTrue
       (ls_Conditions
          (getListenerStatus [] 0
             \<lparr>gw_Name = ''gw'', gw_Namespace = ''default'', gw_Generation = 1,
              Spec_GatewayClassName = ''kong'',
              Spec_Listeners =
                [\<lparr>l_Name = ''stream'', l_Hostname = None, l_Port = 80,
                  l_Protocol = TCPProtocolType\<rparr>,
                 \<lparr>l_Name = ''web'', l_Hostname = None, l_Port = 80,
                  l_Protocol = HTTPProtocolType\<rparr>],
              Status_Conditions = [], Status_Listeners = []\<rparr>
             [] ! 0)) \<and>
   hasCondition ListenerConditionConflicted ConditionTrue ListenerReasonProtocolConflict
       (ls_Conditions
          (getListenerStatus [] 0
             \<lparr>gw_Name = ''gw'', gw_Namespace = ''default'', gw_Generation = 1,
              Spec_GatewayClassName = ''kong'',
              Spec_Listeners =
                [\<lparr>l_Name = ''stream'', l_Hostname = None, l_Port = 80,
                  l_Protocol = TCPProtocolType\<rparr>,
                 \<lparr>l_Name = ''web'', l_Hostname = None, l_Port = 80,
                  l_Protocol = HTTPProtocolType\<rparr>],
              Status_Conditions = [], Status_Listeners = []\<rparr>
             [] ! 1))"
  by (rule getListenerStatus_protocol_conflict_later
        [where i = 0 and j = 1 and kinds = "[]" and now = 0 and kongListens = "[]" and
           gw = "\<lparr>gw_Name = ''gw'', gw_Namespace = ''default'', gw_Generation = 1,
              Spec_GatewayClassName = ''kong'',
              Spec_Listeners =
                [\<lparr>l_Name = ''stream'', l_Hostname = None, l_Port = 80,
                  l_Protocol = TCPProtocolType\<rparr>,
                 \<lparr>l_Name = ''web'', l_Hostname = None, l_Port = 80,
                  l_Protocol = HTTPProtocolType\<rparr>],
              Status_Conditions = [], Status_Listeners = []\<rparr>"])
     simp_all

text \<open>
  The claim C5 as stated fails in three ways, shown on port 80 with hostname a.com.
  When A is an HTTP listener with a previous Conflicted=False and B an HTTPS listener, B
  gets Conflicted=True with reason ProtocolConflict, not HostnameConflict. When a third
  HTTP listener C with the same hostname and a previous Conflicted=False follows A, the
  last writer C owns the hostname and A gets Conflicted=True with reason
  HostnameConflict. When a TCP listener with a previous Conflicted=False precedes A, the
  port is claimed for TCP and A gets Conflicted=True.
\<close>

theorem getListenerStatus_precedence_counterexample:
  "\<not> hasCondition ListenerConditionConflicted ConditionTrue ListenerReasonHostnameConflict
       (ls_Conditions
          (getListenerStatus [] 0
             \<lparr>gw_Name = ''gw'', gw_Namespace = ''default'', gw_Generation = 2,
              Spec_GatewayClassName = ''kong'',
              Spec_Listeners =
                [\<lparr>l_Name = ''a'', l_Hostname = Some ''a.com'', l_Port = 80,
                  l_Protocol = HTTPProtocolType\<rparr>,
                 \<lparr>l_Name = ''b'', l_Hostname = Some ''a.com'', l_Port = 80,
                  l_Protocol = HTTPSProtocolType\<rparr>],
              Status_Conditions = [],
              Status_Listeners =
                [\<lparr>ls_Name = ''a'', ls_SupportedKinds = [], ls_AttachedRoutes = 0,
                  ls_Conditions =
                    [\<lparr>cond_Type = ListenerConditionConflicted, cond_Status = ConditionFalse,
                      cond_ObservedGeneration = 1, cond_LastTransitionTime = 0,
                      cond_Reason = ListenerReasonNoConflicts, cond_Message = []\<rparr>]\<rparr>]\<rparr>
             [\<lparr>l_Name = [], l_Hostname = None, l_Port = 80,
               l_Protocol = HTTPProtocolType\<rparr>,
              \<lparr>l_Name = [], l_Hostname = None, l_Port = 80,
               l_Protocol = HTTPSProtocolType\<rparr>] ! 1)) \<and>
   hasCondition ListenerConditionConflicted ConditionTrue ListenerReasonHostnameConflict
       (ls_Conditions
          (getListenerStatus [] 0
             \<lparr>gw_Name = ''gw'', gw_Namespace = ''default'', gw_Generation = 2,
              Spec_GatewayClassName = ''kong'',
              Spec_Listeners =
                [\<lparr>l_Name = ''a'', l_Hostname = Some ''a.com'', l_Port = 80,
                  l_Protocol = HTTPProtocolType\<rparr>,
                 \<lparr>l_Name = ''c'', l_Hostname = Some ''a.com'', l_Port = 80,
                  l_Protocol = HTTPProtocolType\<rparr>,
                 \<lparr>l_Name = ''b'', l_Hostname = Some ''a.com'', l_Port = 80,
                  l_Protocol = HTTPProtocolType\<rparr>],
              Status_Conditions = [],
              Status_Listeners =
                [\<lparr>ls_Name = ''a'', ls_SupportedKinds = [], ls_AttachedRoutes = 0,
                  ls_Conditions =
                    [\<lparr>cond_Type = ListenerConditionConflicted, cond_Status = ConditionFalse,
                      cond_ObservedGeneration = 1, cond_LastTransitionTime = 0,
                      cond_Reason = ListenerReasonNoConflicts, cond_Message = []\<rparr>]\<rparr>,
                 \<lparr>ls_Name = ''c'', ls_SupportedKinds = [], ls_AttachedRoutes = 0,
                  ls_Conditions =
                    [\<lparr>cond_Type = ListenerConditionConflicted, cond_Status = ConditionFalse,
                      cond_ObservedGeneration = 1, cond_LastTransitionTime = 0,
                      cond_Reason = ListenerReasonNoConflicts, cond_Message = []\<rparr>]\<rparr>]\<rparr>
             [\<lparr>l_Name = [], l_Hostname = None, l_Port = 80,
               l_Protocol = HTTPProtocolType\<rparr>] ! 0)) \<and>
   hasConditionStatus ListenerConditionConflicted ConditionTrue
       (ls_Conditions
          (getListenerStatus [] 0
             \<lparr>gw_Name = ''gw'', gw_Namespace = ''default'', gw_Generation = 2,
              Spec_GatewayClassName = ''kong'',
              Spec_Listeners =
                [\<lparr>l_Name = ''s'', l_Hostname = None, l_Port = 80,
                  l_Protocol = TCPProtocolType\<rparr>,
                 \<lparr>l_Name = ''a'', l_Hostname = Some ''a.com'', l_Port = 80,
                  l_Protocol = HTTPProtocolType\<rparr>,
                 \<lparr>l_Name = ''b'', l_Hostname = Some ''a.com'', l_Port = 80,
                  l_Protocol = HTTPProtocolType\<rparr>],
              Status_Conditions = [],
              Status_Listeners =
                [\<lparr>ls_Name = ''s'', ls_SupportedKinds = [], ls_AttachedRoutes = 0,
                  ls_Conditions =
                    [\<lparr>cond_Type = ListenerConditionConflicted, cond_Status = ConditionFalse,
                      cond_ObservedGeneration = 1, cond_LastTransitionTime = 0,
                      cond_Reason = ListenerReasonNoConflicts, cond_Message = []\<rparr>]\<rparr>,
                 \<lparr>ls_Name = ''a'', ls_SupportedKinds = [], ls_AttachedRoutes = 0,
                  ls_Conditions =
                    [\<lparr>cond_Type = ListenerConditionConflicted, cond_Status = ConditionFalse,
                      cond_ObservedGeneration = 1, cond_LastTransitionTime = 0,
                      cond_Reason = ListenerReasonNoConflicts, cond_Message = []\<rparr>]\<rparr>]\<rparr>
             [\<lparr>l_Name = [], l_Hostname = None, l_Port = 80,
               l_Protocol = HTTPProtocolType\<rparr>] ! 1))"
  by (simp add: getListenerStatus_def listenerStatus_body_def conflictCheck_def hostnameCheck_def
      index_map_def len_map_def kongListens_body_def existingCondition_body_def)

text \<open>
  C5, amended. Let A and B be HTTP, HTTPS or TLS spec listeners on one port with the same
  hostname (none counting as the empty hostname), at positions \<open>i\<close> and \<open>j\<close> in either
  order, the previous status having a Conflicted=False condition for A and none for B.
  Let the first spec listener on that port with a previous Conflicted=False, at position
  \<open>f\<close> (A itself or a listener before A), have a protocol of A's group (both HTTP, or each
  HTTPS or TLS), and let no HTTP, HTTPS or TLS spec listener after A with A's port and
  hostname have a previous Conflicted=False. Then A gets no Conflicted=True condition, and
  B gets Conflicted=True, with reason HostnameConflict when the protocols of A and B are
  of one group and with reason ProtocolConflict otherwise.
\<close>

theorem getListenerStatus_precedence:
  assumes i: "i < length (Spec_Listeners gw)" and j: "j < length (Spec_Listeners gw)"
    and port: "l_Port (Spec_Listeners gw ! i) = l_Port (Spec_Listeners gw ! j)"
    and host: "listenerHostname (Spec_Listeners gw ! i) = listenerHostname (Spec_Listeners gw ! j)"
    and famA: "l_Protocol (Spec_Listeners gw ! i) = HTTPProtocolType \<or>
               l_Protocol (Spec_Listeners gw ! i) = HTTPSProtocolType \<or>
               l_Protocol (Spec_Listeners gw ! i) = TLSProtocolType"
    and famB: "l_Protocol (Spec_Listeners gw ! j) = HTTPProtocolType \<or>
               l_Protocol (Spec_Listeners gw ! j) = HTTPSProtocolType \<or>
               l_Protocol (Spec_Listeners gw ! j) = TLSProtocolType"
    and prevA: "previousNoConflict gw (Spec_Listeners gw ! i)"
    and prevB: "\<not> previousNoConflict gw (Spec_Listeners gw ! j)"
    and f: "f \<le> i"
    and portF: "l_Port (Spec_Listeners gw ! f) = l_Port (Spec_Listeners gw ! i)"
    and prevF: "previousNoConflict gw (Spec_Listeners gw ! f)"
    and firstF: "\<forall>k<f. l_Port (Spec_Listeners gw ! k) = l_Port (Spec_Listeners gw ! i) \<longrightarrow>
        \<not> previousNoConflict gw (Spec_Listeners gw ! k)"
    and groupF: "sameProtocolGroup (l_Protocol (Spec_Listeners gw ! f))
                   (l_Protocol (Spec_Listeners gw ! i))"
    and later: "\<forall>k<length (Spec_Listeners gw). i < k \<longrightarrow>
        l_Port (Spec_Listeners gw ! k) = l_Port (Spec_Listeners gw ! i) \<longrightarrow>
        listenerHostname (Spec_Listeners gw ! k) = listenerHostname (Spec_Listeners gw ! i) \<longrightarrow>
        (l_Protocol (Spec_Listeners gw ! k) = HTTPProtocolType \<or>
         l_Protocol (Spec_Listeners gw ! k) = HTTPSProtocolType \<or>
         l_Protocol (Spec_Listeners gw ! k) = TLSProtocolType) \<longrightarrow>
        \<not> previousNoConflict gw (Spec_Listeners gw ! k)"
  shows "\<not> hasConditionStatus ListenerConditionConflicted ConditionTrue
             (ls_Conditions (getListenerStatus kinds now gw kongListens ! i)) \<and>
         hasCondition ListenerConditionConflicted ConditionTrue
             (if sameProtocolGroup (l_Protocol (Spec_Listeners gw ! i))
                   (l_Protocol (Spec_Listeners gw ! j))
              then ListenerReasonHostnameConflict
              else ListenerReasonProtocolConflict)
             (ls_Conditions (getListenerStatus kinds now gw kongListens ! j))"
proof -
  let ?ls = "Spec_Listeners gw"
  let ?ex = "existingListenerStatuses_loop (Status_Listeners gw) Map.empty"
  let ?A = "?ls ! i" and ?B = "?ls ! j"
  have ncA: "existingNoConflict ?ex ?A"
    using prevA by (simp add: previousNoConflict_def)
  have ncB: "\<not> existingNoConflict ?ex ?B"
    using prevB by (simp add: previousNoConflict_def)
  have names: "l_Name ?A \<noteq> l_Name ?B"
    using ncA ncB by (auto simp: existingNoConflict_def)
  have fl: "f < length ?ls" using f i by simp
  have ncF: "existingNoConflict ?ex (?ls ! f)"
    using prevF by (simp add: previousNoConflict_def)
  have before: "\<forall>k<f. \<not> (l_Port (?ls ! k) = l_Port (?ls ! f) \<and>
      existingNoConflict ?ex (?ls ! k))"
    using firstF portF by (auto simp: previousNoConflict_def)
  have "fst (existingClaims gw) (l_Port (?ls ! f)) = Some (l_Protocol (?ls ! f))"
    unfolding existingClaims_def
    by (rule existingNoConflict_loop_first_claim [OF fl ncF before]) simp
  then have claimed: "fst (existingClaims gw) (l_Port ?A) = Some (l_Protocol (?ls ! f))"
    using portF by simp
  have after: "\<forall>k<length ?ls. i < k \<longrightarrow>
       \<not> (l_Port (?ls ! k) = l_Port ?A \<and>
          listenerHostname (?ls ! k) = listenerHostname ?A \<and>
          (l_Protocol (?ls ! k) = HTTPProtocolType \<or> l_Protocol (?ls ! k) = HTTPSProtocolType \<or>
           l_Protocol (?ls ! k) = TLSProtocolType) \<and>
          existingNoConflict ?ex (?ls ! k))"
    using later by (auto simp: previousNoConflict_def)
  have owner: "index_map (snd (existingClaims gw)) (l_Port ?A) (listenerHostname ?A) =
      Some (l_Name ?A)"
    unfolding existingClaims_def
    by (rule existingNoConflict_loop_last_writer [OF i ncA famA after])
  have a: "\<not> hasConditionStatus ListenerConditionConflicted ConditionTrue
             (ls_Conditions (getListenerStatus kinds now gw kongListens ! i))"
    using getListenerStatus_owned_hostname(1) [OF i claimed groupF owner] by simp
  have claimedB: "fst (existingClaims gw) (l_Port ?B) = Some (l_Protocol (?ls ! f))"
    using claimed port by simp
  have b: "hasCondition ListenerConditionConflicted ConditionTrue
             (if sameProtocolGroup (l_Protocol ?A) (l_Protocol ?B)
              then ListenerReasonHostnameConflict
              else ListenerReasonProtocolConflict)
             (ls_Conditions (getListenerStatus kinds now gw kongListens ! j))"
  proof (cases "sameProtocolGroup (l_Protocol ?A) (l_Protocol ?B)")
    case True
    have groupB: "sameProtocolGroup (l_Protocol (?ls ! f)) (l_Protocol ?B)"
      using groupF True by (rule sameProtocolGroup_trans)
    have ownerB: "index_map (snd (existingClaims gw)) (l_Port ?B) (listenerHostname ?B) =
        Some (l_Name ?A)"
      using owner port host by simp
    show ?thesis
      using getListenerStatus_owned_hostname(2) [OF j claimedB groupB ownerB] names True
      by simp
  next
    case False
    note other = otherProtocolGroup [OF groupF famB False]
    have "hasCondition ListenerConditionConflicted ConditionTrue ListenerReasonProtocolConflict
           (ls_Conditions (getListenerStatus kinds now gw kongListens ! j))"
      using j claimedB
    proof (rule getListenerStatus_other_protocol)
      show "l_Protocol (?ls ! f) = TCPProtocolType \<or> l_Protocol (?ls ! f) = UDPProtocolType \<or>
        (l_Protocol (?ls ! f) \<noteq> l_Protocol ?B \<and>
         (l_Protocol ?B \<noteq> HTTPSProtocolType \<or> l_Protocol (?ls ! f) \<noteq> TLSProtocolType) \<and>
         (l_Protocol ?B \<noteq> TLSProtocolType \<or> l_Protocol (?ls ! f) \<noteq> HTTPSProtocolType))"
        using other by blast
    qed
    then show ?thesis using False by simp
  qed
  from a b show ?thesis ..
qed

theorem getListenerStatus_precedence_witness:
  "\<not> hasConditionStatus ListenerConditionConflicted ConditionTrue
       (ls_Conditions
          (getListenerStatus [] 0
             \<lparr>gw_Name = ''gw'', gw_Namespace = ''default'', gw_Generation = 2,
              Spec_GatewayClassName = ''kong'',
              Spec_Listeners =
                [\<lparr>l_Name = ''b'', l_Hostname = Some ''a.com'', l_Port = 80,
                  l_Protocol = HTTPProtocolType\<rparr>,
                 \<lparr>l_Name = ''x'', l_Hostname = Some ''x.com'', l_Port = 80,
                  l_Protocol = HTTPProtocolType\<rparr>,
                 \<lparr>l_Name = ''a'', l_Hostname = Some ''a.com'', l_Port = 80,
                  l_Protocol = HTTPProtocolType\<rparr>],
              Status_Conditions = [],
              Status_Listeners =
                [\<lparr>ls_Name = ''x'', ls_SupportedKinds = [], ls_AttachedRoutes = 0,
                  ls_Conditions =
                    [\<lparr>cond_Type = ListenerConditionConflicted, cond_Status = ConditionFalse,
                      cond_ObservedGeneration = 1, cond_LastTransitionTime = 0,
                      cond_Reason = ListenerReasonNoConflicts, cond_Message = []\<rparr>]\<rparr>,
                 \<lparr>ls_Name = ''a'', ls_SupportedKinds = [], ls_AttachedRoutes = 0,
                  ls_Conditions =
                    [\<lparr>cond_Type = ListenerConditionConflicted, cond_Status = ConditionFalse,
                      cond_ObservedGeneration = 1, cond_LastTransitionTime = 0,
                      cond_Reason = ListenerReasonNoConflicts, cond_Message = []\<rparr>]\<rparr>]\<rparr>
             [] ! 2)) \<and>
   hasCondition ListenerConditionConflicted ConditionTrue ListenerReasonHostnameConflict
       (ls_Conditions
          (getListenerStatus [] 0
             \<lparr>gw_Name = ''gw'', gw_Namespace = ''default'', gw_Generation = 2,
              Spec_GatewayClassName = ''kong'',
              Spec_Listeners =
                [\<lparr>l_Name = ''b'', l_Hostname = Some ''a.com'', l_Port = 80,
                  l_Protocol = HTTPProtocolType\<rparr>,
                 \<lparr>l_Name = ''x'', l_Hostname = Some ''x.com'', l_Port = 80,
                  l_Protocol = HTTPProtocolType\<rparr>,
                 \<lparr>l_Name = ''a'', l_Hostname = Some ''a.com'', l_Port = 80,
                  l_Protocol = HTTPProtocolType\<rparr>],
              Status_Conditions = [],
              Status_Listeners =
                [\<lparr>ls_Name = ''x'', ls_SupportedKinds = [], ls_AttachedRoutes = 0,
                  ls_Conditions =
                    [\<lparr>cond_Type = ListenerConditionConflicted, cond_Status = ConditionFalse,
                      cond_ObservedGeneration = 1, cond_LastTransitionTime = 0,
                      cond_Reason = ListenerReasonNoConflicts, cond_Message = []\<rparr>]\<rparr>,
                 \<lparr>ls_Name = ''a'', ls_SupportedKinds = [], ls_AttachedRoutes = 0,
                  ls_Conditions =
                    [\<lparr>cond_Type = ListenerConditionConflicted, cond_Status = ConditionFalse,
                      cond_ObservedGeneration = 1, cond_LastTransitionTime = 0,
                      cond_Reason = ListenerReasonNoConflicts, cond_Message = []\<rparr>]\<rparr>]\<rparr>
             [] ! 0)) \<and>
   hasCondition ListenerConditionConflicted ConditionTrue ListenerReasonProtocolConflict
       (ls_Conditions
          (getListenerStatus [] 0
             \<lparr>gw_Name = ''gw'', gw_Namespace = ''default'', gw_Generation = 2,
              Spec_GatewayClassName = ''kong'',
              Spec_Listeners =
                [\<lparr>l_Name = ''a'', l_Hostname = Some ''a.com'', l_Port = 80,
                  l_Protocol = HTTPProtocolType\<rparr>,
                 \<lparr>l_Name = ''b'', l_Hostname = Some ''a.com'', l_Port = 80,
                  l_Protocol = HTTPSProtocolType\<rparr>],
              Status_Conditions = [],
              Status_Listeners =
                [\<lparr>ls_Name = ''a'', ls_SupportedKinds = [], ls_AttachedRoutes = 0,
                  ls_Conditions =
                    [\<lparr>cond_Type = ListenerConditionConflicted, cond_Status = ConditionFalse,
                      cond_ObservedGeneration = 1, cond_LastTransitionTime = 0,
                      cond_Reason = ListenerReasonNoConflicts, cond_Message = []\<rparr>]\<rparr>]\<rparr>
             [] ! 1))"
  using getListenerStatus_precedence
        [where i = 2 and j = 0 and f = 1 and kinds = "[]" and now = 0 and kongListens = "[]" and
           gw = "\<lparr>gw_Name = ''gw'', gw_Namespace = ''default'', gw_Generation = 2,
              Spec_GatewayClassName = ''kong'',
              Spec_Listeners =
                [\<lparr>l_Name = ''b'', l_Hostname = Some ''a.com'', l_Port = 80,
                  l_Protocol = HTTPProtocolType\<rparr>,
                 \<lparr>l_Name = ''x'', l_Hostname = Some ''x.com'', l_Port = 80,
                  l_Protocol = HTTPProtocolType\<rparr>,
                 \<lparr>l_Name = ''a'', l_Hostname = Some ''a.com'', l_Port = 80,
                  l_Protocol = HTTPProtocolType\<rparr>],
              Status_Conditions = [],
              Status_Listeners =
                [\<lparr>ls_Name = ''x'', ls_SupportedKinds = [], ls_AttachedRoutes = 0,
                  ls_Conditions =
                    [\<lparr>cond_Type = ListenerConditionConflicted, cond_Status = ConditionFalse,
                      cond_ObservedGeneration = 1, cond_LastTransitionTime = 0,
                      cond_Reason = ListenerReasonNoConflicts, cond_Message = []\<rparr>]\<rparr>,
                 \<lparr>ls_Name = ''a'', ls_SupportedKinds = [], ls_AttachedRoutes = 0,
                  ls_Conditions =
                    [\<lparr>cond_Type = ListenerConditionConflicted, cond_Status = ConditionFalse,
                      cond_ObservedGeneration = 1, cond_LastTransitionTime = 0,
                      cond_Reason = ListenerReasonNoConflicts, cond_Message = []\<rparr>]\<rparr>]\<rparr>"]
    getListenerStatus_precedence
        [where i = 0 and j = 1 and f = 0 and kinds = "[]" and now = 0 and kongListens = "[]" and
           gw = "\<lparr>gw_Name = ''gw'', gw_Namespace = ''default'', gw_Generation = 2,
              Spec_GatewayClassName = ''kong'',
              Spec_Listeners =
                [\<lparr>l_Name = ''a'', l_Hostname = Some ''a.com'', l_Port = 80,
                  l_Protocol = HTTPProtocolType\<rparr>,
                 \<lparr>l_Name = ''b'', l_Hostname = Some ''a.com'', l_Port = 80,
                  l_Protocol = HTTPSProtocolType\<rparr>],
              Status_Conditions = [],
              Status_Listeners =
                [\<lparr>ls_Name = ''a'', ls_SupportedKinds = [], ls_AttachedRoutes = 0,
                  ls_Conditions =
                    [\<lparr>cond_Type = ListenerConditionConflicted, cond_Status = ConditionFalse,
                      cond_ObservedGeneration = 1, cond_LastTransitionTime = 0,
                      cond_Reason = ListenerReasonNoConflicts, cond_Message = []\<rparr>]\<rparr>]\<rparr>"]
  by (simp add: previousNoConflict_def existingNoConflict_def sameProtocolGroup_def
        listenerHostname_def less_Suc_eq)

text \<open>
  C6. The claim expects a HostnameConflict for two HTTPS listeners on one port that both
  have hostname a.com. With no previous status, the first listener claims the free port in
  the branch of line 166, which records no hostname; the second finds the hostname free
  and claims it. Both listeners get Conflicted=False and Ready=True, although the comment
  of lines 191-193 asks for a hostname unique within the group.
\<close>

theorem getListenerStatus_same_hostname_unnoticed:
  "map ls_Conditions
     (getListenerStatus [] 0
        \<lparr>gw_Name = ''gw'', gw_Namespace = ''default'', gw_Generation = 1,
         Spec_GatewayClassName = ''kong'',
         Spec_Listeners =
           [\<lparr>l_Name = ''first'', l_Hostname = Some ''a.com'', l_Port = 443,
             l_Protocol = HTTPSProtocolType\<rparr>,
            \<lparr>l_Name = ''second'', l_Hostname = Some ''a.com'', l_Port = 443,
             l_Protocol = HTTPSProtocolType\<rparr>],
         Status_Conditions = [], Status_Listeners = []\<rparr>
        [\<lparr>l_Name = [], l_Hostname = None, l_Port = 443,
          l_Protocol = HTTPSProtocolType\<rparr>]) =
   [[\<lparr>cond_Type = ListenerConditionConflicted, cond_Status = ConditionFalse,
      cond_ObservedGeneration = 1, cond_LastTransitionTime = 0,
      cond_Reason = ListenerReasonNoConflicts, cond_Message = []\<rparr>,
     \<lparr>cond_Type = ListenerConditionReady, cond_Status = ConditionTrue,
      cond_ObservedGeneration = 1, cond_LastTransitionTime = 0,
      cond_Reason = ListenerReasonReady,
      cond_Message = ''the listener is ready and available for routing''\<rparr>],
    [\<lparr>cond_Type = ListenerConditionConflicted, cond_Status = ConditionFalse,
      cond_ObservedGeneration = 1, cond_LastTransitionTime = 0,
      cond_Reason = ListenerReasonNoConflicts, cond_Message = []\<rparr>,
     \<lparr>cond_Type = ListenerConditionReady, cond_Status = ConditionTrue,
      cond_ObservedGeneration = 1, cond_LastTransitionTime = 0,
      cond_Reason = ListenerReasonReady,
      cond_Message = ''the listener is ready and available for routing''\<rparr>]]"
  by (simp add: getListenerStatus_def listenerStatus_body_def conflictCheck_def hostnameCheck_def
      index_map_def len_map_def kongListens_body_def)

text \<open>
  The claim C10 as stated fails in three ways, shown on port 80 with hostname a.com and
  listeners that all have a previous Conflicted=False. For an HTTP listener followed by
  an HTTPS listener, the later one finds the port claimed for HTTP and gets Conflicted=True
  with reason ProtocolConflict. For the first two of three HTTP listeners, the third owns
  the hostname and the second gets Conflicted=True with reason HostnameConflict. For two
  HTTP listeners preceded by a TCP listener on the port, the port is claimed for TCP and
  the earlier of the two gets reason ProtocolConflict, not HostnameConflict.
\<close>

theorem getListenerStatus_last_claim_counterexample:
  "hasCondition ListenerConditionConflicted ConditionTrue ListenerReasonProtocolConflict
       (ls_Conditions
          (getListenerStatus [] 0
             \<lparr>gw_Name = ''gw'', gw_Namespace = ''default'', gw_Generation = 2,
              Spec_GatewayClassName = ''kong'',
              Spec_Listeners =
                [\<lparr>l_Name = ''a'', l_Hostname = Some ''a.com'', l_Port = 80,
                  l_Protocol = HTTPProtocolType\<rparr>,
                 \<lparr>l_Name = ''b'', l_Hostname = Some ''a.com'', l_Port = 80,
                  l_Protocol = HTTPSProtocolType\<rparr>],
              Status_Conditions = [],
              Status_Listeners =
                [\<lparr>ls_Name = ''a'', ls_SupportedKinds = [], ls_AttachedRoutes = 0,
                  ls_Conditions =
                    [\<lparr>cond_Type = ListenerConditionConflicted, cond_Status = ConditionFalse,
                      cond_ObservedGeneration = 1, cond_LastTransitionTime = 0,
                      cond_Reason = ListenerReasonNoConflicts, cond_Message = []\<rparr>]\<rparr>,
                 \<lparr>ls_Name = ''b'', ls_SupportedKinds = [], ls_AttachedRoutes = 0,
                  ls_Conditions =
                    [\<lparr>cond_Type = ListenerConditionConflicted, cond_Status = ConditionFalse,
                      cond_ObservedGeneration = 1, cond_LastTransitionTime = 0,
                      cond_Reason = ListenerReasonNoConflicts, cond_Message = []\<rparr>]\<rparr>]\<rparr>
             [\<lparr>l_Name = [], l_Hostname = None, l_Port = 80,
               l_Protocol = HTTPProtocolType\<rparr>,
              \<lparr>l_Name = [], l_Hostname = None, l_Port = 80,
               l_Protocol = HTTPSProtocolType\<rparr>] ! 1)) \<and>
   hasCondition ListenerConditionConflicted ConditionTrue ListenerReasonHostnameConflict
       (ls_Conditions
          (getListenerStatus [] 0
             \<lparr>gw_Name = ''gw'', gw_Namespace = ''default'', gw_Generation = 2,
              Spec_GatewayClassName = ''kong'',
              Spec_Listeners =
                [\<lparr>l_Name = ''a'', l_Hostname = Some ''a.com'', l_Port = 80,
                  l_Protocol = HTTPProtocolType\<rparr>,
                 \<lparr>l_Name = ''b'', l_Hostname = Some ''a.com'', l_Port = 80,
                  l_Protocol = HTTPProtocolType\<rparr>,
                 \<lparr>l_Name = ''c'', l_Hostname = Some ''a.com'', l_Port = 80,
                  l_Protocol = HTTPProtocolType\<rparr>],
              Status_Conditions = [],
              Status_Listeners =
                [\<lparr>ls_Name = ''a'', ls_SupportedKinds = [], ls_AttachedRoutes = 0,
                  ls_Conditions =
                    [\<lparr>cond_Type = ListenerConditionConflicted, cond_Status = ConditionFalse,
                      cond_ObservedGeneration = 1, cond_LastTransitionTime = 0,
                      cond_Reason = ListenerReasonNoConflicts, cond_Message = []\<rparr>]\<rparr>,
                 \<lparr>ls_Name = ''b'', ls_SupportedKinds = [], ls_AttachedRoutes = 0,
                  ls_Conditions =
                    [\<lparr>cond_Type = ListenerConditionConflicted, cond_Status = ConditionFalse,
                      cond_ObservedGeneration = 1, cond_LastTransitionTime = 0,
                      cond_Reason = ListenerReasonNoConflicts, cond_Message = []\<rparr>]\<rparr>,
                 \<lparr>ls_Name = ''c'', ls_SupportedKinds = [], ls_AttachedRoutes = 0,
                  ls_Conditions =
                    [\<lparr>cond_Type = ListenerConditionConflicted, cond_Status = ConditionFalse,
                      cond_ObservedGeneration = 1, cond_LastTransitionTime = 0,
                      cond_Reason = ListenerReasonNoConflicts, cond_Message = []\<rparr>]\<rparr>]\<rparr>
             [\<lparr>l_Name = [], l_Hostname = None, l_Port = 80,
               l_Protocol = HTTPProtocolType\<rparr>] ! 1)) \<and>
   \<not> hasCondition ListenerConditionConflicted ConditionTrue ListenerReasonHostnameConflict
       (ls_Conditions
          (getListenerStatus [] 0
             \<lparr>gw_Name = ''gw'', gw_Namespace = ''default'', gw_Generation = 2,
              Spec_GatewayClassName = ''kong'',
              Spec_Listeners =
                [\<lparr>l_Name = ''s'', l_Hostname = None, l_Port = 80,
                  l_Protocol = TCPProtocolType\<rparr>,
                 \<lparr>l_Name = ''a'', l_Hostname = Some ''a.com'', l_Port = 80,
                  l_Protocol = HTTPProtocolType\<rparr>,
                 \<lparr>l_Name = ''b'', l_Hostname = Some ''a.com'', l_Port = 80,
                  l_Protocol = HTTPProtocolType\<rparr>],
              Status_Conditions = [],
              Status_Listeners =
                [\<lparr>ls_Name = ''s'', ls_SupportedKinds = [], ls_AttachedRoutes = 0,
                  ls_Conditions =
                    [\<lparr>cond_Type = ListenerConditionConflicted, cond_Status = ConditionFalse,
                      cond_ObservedGeneration = 1, cond_LastTransitionTime = 0,
                      cond_Reason = ListenerReasonNoConflicts, cond_Message = []\<rparr>]\<rparr>,
                 \<lparr>ls_Name = ''a'', ls_SupportedKinds = [], ls_AttachedRoutes = 0,
                  ls_Conditions =
                    [\<lparr>cond_Type = ListenerConditionConflicted, cond_Status = ConditionFalse,
                      cond_ObservedGeneration = 1, cond_LastTransitionTime = 0,
                      cond_Reason = ListenerReasonNoConflicts, cond_Message = []\<rparr>]\<rparr>,
                 \<lparr>ls_Name = ''b'', ls_SupportedKinds = [], ls_AttachedRoutes = 0,
                  ls_Conditions =
                    [\<lparr>cond_Type = ListenerConditionConflicted, cond_Status = ConditionFalse,
                      cond_ObservedGeneration = 1, cond_LastTransitionTime = 0,
                      cond_Reason = ListenerReasonNoConflicts, cond_Message = []\<rparr>]\<rparr>]\<rparr>
             [\<lparr>l_Name = [], l_Hostname = None, l_Port = 80,
               l_Protocol = HTTPProtocolType\<rparr>] ! 1))"
  by (simp add: getListenerStatus_def listenerStatus_body_def conflictCheck_def hostnameCheck_def
      index_map_def len_map_def kongListens_body_def existingCondition_body_def)

text \<open>
  C10, amended. In the first pass the port claim is first-claim-wins and the hostname
  claim is last-claim-wins. Let two HTTP, HTTPS or TLS spec listeners with different
  names, at positions \<open>i < j\<close>, have the same port and hostname and each a previous
  Conflicted=False. Let the first spec listener on that port with a previous
  Conflicted=False, at position \<open>f\<close> (the earlier listener itself or one before it), have
  a protocol of the earlier listener's group (both HTTP, or each HTTPS or TLS), and let no
  HTTP, HTTPS or TLS spec listener after the later one with that port and hostname have a
  previous Conflicted=False. Then after the first pass the port is claimed with the
  protocol of the listener at \<open>f\<close> and the hostname on it is owned by the later listener;
  the second pass gives the earlier listener Conflicted=True with reason HostnameConflict;
  and it gives the later listener no Conflicted=True condition when the protocols of the
  two are of one group, and Conflicted=True with reason ProtocolConflict otherwise.
\<close>

theorem getListenerStatus_last_claim_wins:
  assumes ij: "i < j" and j: "j < length (Spec_Listeners gw)"
    and port: "l_Port (Spec_Listeners gw ! i) = l_Port (Spec_Listeners gw ! j)"
    and host: "listenerHostname (Spec_Listeners gw ! i) = listenerHostname (Spec_Listeners gw ! j)"
    and famA: "l_Protocol (Spec_Listeners gw ! i) = HTTPProtocolType \<or>
               l_Protocol (Spec_Listeners gw ! i) = HTTPSProtocolType \<or>
               l_Protocol (Spec_Listeners gw ! i) = TLSProtocolType"
    and famB: "l_Protocol (Spec_Listeners gw ! j) = HTTPProtocolType \<or>
               l_Protocol (Spec_Listeners gw ! j) = HTTPSProtocolType \<or>
               l_Protocol (Spec_Listeners gw ! j) = TLSProtocolType"
    and names: "l_Name (Spec_Listeners gw ! i) \<noteq> l_Name (Spec_Listeners gw ! j)"
    and prevA: "previousNoConflict gw (Spec_Listeners gw ! i)"
    and prevB: "previousNoConflict gw (Spec_Listeners gw ! j)"
    and f: "f \<le> i"
    and portF: "l_Port (Spec_Listeners gw ! f) = l_Port (Spec_Listeners gw ! i)"
    and prevF: "previousNoConflict gw (Spec_Listeners gw ! f)"
    and firstF: "\<forall>k<f. l_Port (Spec_Listeners gw ! k) = l_Port (Spec_Listeners gw ! i) \<longrightarrow>
        \<not> previousNoConflict gw (Spec_Listeners gw ! k)"
    and groupF: "sameProtocolGroup (l_Protocol (Spec_Listeners gw ! f))
                   (l_Protocol (Spec_Listeners gw ! i))"
    and later: "\<forall>k<length (Spec_Listeners gw). j < k \<longrightarrow>
        l_Port (Spec_Listeners gw ! k) = l_Port (Spec_Listeners gw ! i) \<longrightarrow>
        listenerHostname (Spec_Listeners gw ! k) = listenerHostname (Spec_Listeners gw ! i) \<longrightarrow>
        (l_Protocol (Spec_Listeners gw ! k) = HTTPProtocolType \<or>
         l_Protocol (Spec_Listeners gw ! k) = HTTPSProtocolType \<or>
         l_Protocol (Spec_Listeners gw ! k) = TLSProtocolType) \<longrightarrow>
        \<not> previousNoConflict gw (Spec_Listeners gw ! k)"
  shows "fst (existingClaims gw) (l_Port (Spec_Listeners gw ! i)) =
           Some (l_Protocol (Spec_Listeners gw ! f)) \<and>
         index_map (snd (existingClaims gw)) (l_Port (Spec_Listeners gw ! i))
           (listenerHostname (Spec_Listeners gw ! i)) = Some (l_Name (Spec_Listeners gw ! j)) \<and>
         hasCondition ListenerConditionConflicted ConditionTrue ListenerReasonHostnameConflict
           (ls_Conditions (getListenerStatus kinds now gw kongListens ! i)) \<and>
         (if sameProtocolGroup (l_Protocol (Spec_Listeners gw ! i))
               (l_Protocol (Spec_Listeners gw ! j))
          then \<not> hasConditionStatus ListenerConditionConflicted ConditionTrue
                   (ls_Conditions (getListenerStatus kinds now gw kongListens ! j))
          else hasCondition ListenerConditionConflicted ConditionTrue
                   ListenerReasonProtocolConflict
                   (ls_Conditions (getListenerStatus kinds now gw kongListens ! j)))"
proof -
  let ?ls = "Spec_Listeners gw"
  let ?ex = "existingListenerStatuses_loop (Status_Listeners gw) Map.empty"
  let ?A = "?ls ! i" and ?B = "?ls ! j"
  have i: "i < length ?ls" using ij j by simp
  have ncA: "existingNoConflict ?ex ?A"
    using prevA by (simp add: previousNoConflict_def)
  have ncB: "existingNoConflict ?ex ?B"
    using prevB by (simp add: previousNoConflict_def)
  have fl: "f < length ?ls" using f i by simp
  have ncF: "existingNoConflict ?ex (?ls ! f)"
    using prevF by (simp add: previousNoConflict_def)
  have before: "\<forall>k<f. \<not> (l_Port (?ls ! k) = l_Port (?ls ! f) \<and>
      existingNoConflict ?ex (?ls ! k))"
    using firstF portF by (auto simp: previousNoConflict_def)
  have after: "\<forall>k<length ?ls. j < k \<longrightarrow>
       \<not> (l_Port (?ls ! k) = l_Port ?B \<and>
          listenerHostname (?ls ! k) = listenerHostname ?B \<and>
          (l_Protocol (?ls ! k) = HTTPProtocolType \<or> l_Protocol (?ls ! k) = HTTPSProtocolType \<or>
           l_Protocol (?ls ! k) = TLSProtocolType) \<and>
          existingNoConflict ?ex (?ls ! k))"
    using later port host by (auto simp: previousNoConflict_def)
  have "fst (existingClaims gw) (l_Port (?ls ! f)) = Some (l_Protocol (?ls ! f))"
    unfolding existingClaims_def
    by (rule existingNoConflict_loop_first_claim [OF fl ncF before]) simp
  then have claimed: "fst (existingClaims gw) (l_Port ?A) = Some (l_Protocol (?ls ! f))"
    using portF by simp
  have ownerB: "index_map (snd (existingClaims gw)) (l_Port ?B) (listenerHostname ?B) =
      Some (l_Name ?B)"
    unfolding existingClaims_def
    by (rule existingNoConflict_loop_last_writer [OF j ncB famB after])
  have owner: "index_map (snd (existingClaims gw)) (l_Port ?A) (listenerHostname ?A) =
      Some (l_Name ?B)"
    using ownerB port host by simp
  have a: "hasCondition ListenerConditionConflicted ConditionTrue ListenerReasonHostnameConflict
             (ls_Conditions (getListenerStatus kinds now gw kongListens ! i))"
    using getListenerStatus_owned_hostname(2) [OF i claimed groupF owner] names by simp
  have claimedB: "fst (existingClaims gw) (l_Port ?B) = Some (l_Protocol (?ls ! f))"
    using claimed port by simp
  have b: "if sameProtocolGroup (l_Protocol ?A) (l_Protocol ?B)
          then \<not> hasConditionStatus ListenerConditionConflicted ConditionTrue
                   (ls_Conditions (getListenerStatus kinds now gw kongListens ! j))
          else hasCondition ListenerConditionConflicted ConditionTrue
                   ListenerReasonProtocolConflict
                   (ls_Conditions (getListenerStatus kinds now gw kongListens ! j))"
  proof (cases "sameProtocolGroup (l_Protocol ?A) (l_Protocol ?B)")
    case True
    have groupB: "sameProtocolGroup (l_Protocol (?ls ! f)) (l_Protocol ?B)"
      using groupF True by (rule sameProtocolGroup_trans)
    show ?thesis
      using getListenerStatus_owned_hostname(1) [OF j claimedB groupB ownerB] True by simp
  next
    case False
    note other = otherProtocolGroup [OF groupF famB False]
    have "hasCondition ListenerConditionConflicted ConditionTrue ListenerReasonProtocolConflict
           (ls_Conditions (getListenerStatus kinds now gw kongListens ! j))"
      using j claimedB
    proof (rule getListenerStatus_other_protocol)
      show "l_Protocol (?ls ! f) = TCPProtocolType \<or> l_Protocol (?ls ! f) = UDPProtocolType \<or>
        (l_Protocol (?ls ! f) \<noteq> l_Protocol ?B \<and>
         (l_Protocol ?B \<noteq> HTTPSProtocolType \<or> l_Protocol (?ls ! f) \<noteq> TLSProtocolType) \<and>
         (l_Protocol ?B \<noteq> TLSProtocolType \<or> l_Protocol (?ls ! f) \<noteq> HTTPSProtocolType))"
        using other by blast
    qed
    then show ?thesis using False by simp
  qed
  from claimed owner a b show ?thesis by simp
qed

theorem getListenerStatus_last_claim_wins_witness:
  "hasCondition ListenerConditionConflicted ConditionTrue ListenerReasonHostnameConflict
       (ls_Conditions
          (getListenerStatus [] 0
             \<lparr>gw_Name = ''gw'', gw_Namespace = ''default'', gw_Generation = 2,
              Spec_GatewayClassName = ''kong'',
              Spec_Listeners =
                [\<lparr>l_Name = ''x'', l_Hostname = Some ''x.com'', l_Port = 443,
                  l_Protocol = TLSProtocolType\<rparr>,
                 \<lparr>l_Name = ''a'', l_Hostname = Some ''a.com'', l_Port = 443,
                  l_Protocol = HTTPSProtocolType\<rparr>,
                 \<lparr>l_Name = ''b'', l_Hostname = Some ''a.com'', l_Port = 443,
                  l_Protocol = TLSProtocolType\<rparr>],
              Status_Conditions = [],
              Status_Listeners =
                [\<lparr>ls_Name = ''x'', ls_SupportedKinds = [], ls_AttachedRoutes = 0,
                  ls_Conditions =
                    [\<lparr>cond_Type = ListenerConditionConflicted, cond_Status = ConditionFalse,
                      cond_ObservedGeneration = 1, cond_LastTransitionTime = 0,
                      cond_Reason = ListenerReasonNoConflicts, cond_Message = []\<rparr>]\<rparr>,
                 \<lparr>ls_Name = ''a'', ls_SupportedKinds = [], ls_AttachedRoutes = 0,
                  ls_Conditions =
                    [\<lparr>cond_Type = ListenerConditionConflicted, cond_Status = ConditionFalse,
                      cond_ObservedGeneration = 1, cond_LastTransitionTime = 0,
                      cond_Reason = ListenerReasonNoConflicts, cond_Message = []\<rparr>]\<rparr>,
                 \<lparr>ls_Name = ''b'', ls_SupportedKinds = [], ls_AttachedRoutes = 0,
                  ls_Conditions =
                    [\<lparr>cond_Type = ListenerConditionConflicted, cond_Status = ConditionFalse,
                      cond_ObservedGeneration = 1, cond_LastTransitionTime = 0,
                      cond_Reason = ListenerReasonNoConflicts, cond_Message = []\<rparr>]\<rparr>]\<rparr>
             [] ! 1)) \<and>
   \<not> hasConditionStatus ListenerConditionConflicted ConditionTrue
       (ls_Conditions
          (getListenerStatus [] 0
             \<lparr>gw_Name = ''gw'', gw_Namespace = ''default'', gw_Generation = 2,
              Spec_GatewayClassName = ''kong'',
              Spec_Listeners =
                [\<lparr>l_Name = ''x'', l_Hostname = Some ''x.com'', l_Port = 443,
                  l_Protocol = TLSProtocolType\<rparr>,
                 \<lparr>l_Name = ''a'', l_Hostname = Some ''a.com'', l_Port = 443,
                  l_Protocol = HTTPSProtocolType\<rparr>,
                 \<lparr>l_Name = ''b'', l_Hostname = Some ''a.com'', l_Port = 443,
                  l_Protocol = TLSProtocolType\<rparr>],
              Status_Conditions = [],
              Status_Listeners =
                [\<lparr>ls_Name = ''x'', ls_SupportedKinds = [], ls_AttachedRoutes = 0,
                  ls_Conditions =
                    [\<lparr>cond_Type = ListenerConditionConflicted, cond_Status = ConditionFalse,
                      cond_ObservedGeneration = 1, cond_LastTransitionTime = 0,
                      cond_Reason = ListenerReasonNoConflicts, cond_Message = []\<rparr>]\<rparr>,
                 \<lparr>ls_Name = ''a'', ls_SupportedKinds = [], ls_AttachedRoutes = 0,
                  ls_Conditions =
                    [\<lparr>cond_Type = ListenerConditionConflicted, cond_Status = ConditionFalse,
                      cond_ObservedGeneration = 1, cond_LastTransitionTime = 0,
                      cond_Reason = ListenerReasonNoConflicts, cond_Message = []\<rparr>]\<rparr>,
                 \<lparr>ls_Name = ''b'', ls_SupportedKinds = [], ls_AttachedRoutes = 0,
                  ls_Conditions =
                    [\<lparr>cond_Type = ListenerConditionConflicted, cond_Status = ConditionFalse,
                      cond_ObservedGeneration = 1, cond_LastTransitionTime = 0,
                      cond_Reason = ListenerReasonNoConflicts, cond_Message = []\<rparr>]\<rparr>]\<rparr>
             [] ! 2)) \<and>
   hasCondition ListenerConditionConflicted ConditionTrue ListenerReasonProtocolConflict
       (ls_Conditions
          (getListenerStatus [] 0
             \<lparr>gw_Name = ''gw'', gw_Namespace = ''default'', gw_Generation = 2,
              Spec_GatewayClassName = ''kong'',
              Spec_Listeners =
                [\<lparr>l_Name = ''a'', l_Hostname = Some ''a.com'', l_Port = 80,
                  l_Protocol = HTTPProtocolType\<rparr>,
                 \<lparr>l_Name = ''b'', l_Hostname = Some ''a.com'', l_Port = 80,
                  l_Protocol = HTTPSProtocolType\<rparr>],
              Status_Conditions = [],
              Status_Listeners =
                [\<lparr>ls_Name = ''a'', ls_SupportedKinds = [], ls_AttachedRoutes = 0,
                  ls_Conditions =
                    [\<lparr>cond_Type = ListenerConditionConflicted, cond_Status = ConditionFalse,
                      cond_ObservedGeneration = 1, cond_LastTransitionTime = 0,
                      cond_Reason = ListenerReasonNoConflicts, cond_Message = []\<rparr>]\<rparr>,
                 \<lparr>ls_Name = ''b'', ls_SupportedKinds = [], ls_AttachedRoutes = 0,
                  ls_Conditions =
                    [\<lparr>cond_Type = ListenerConditionConflicted, cond_Status = ConditionFalse,
                      cond_ObservedGeneration = 1, cond_LastTransitionTime = 0,
                      cond_Reason = ListenerReasonNoConflicts, cond_Message = []\<rparr>]\<rparr>]\<rparr>
             [] ! 1))"
  using getListenerStatus_last_claim_wins
        [where i = 1 and j = 2 and f = 0 and kinds = "[]" and now = 0 and kongListens = "[]" and
           gw = "\<lparr>gw_Name = ''gw'', gw_Namespace = ''default'', gw_Generation = 2,
              Spec_GatewayClassName = ''kong'',
              Spec_Listeners =
                [\<lparr>l_Name = ''x'', l_Hostname = Some ''x.com'', l_Port = 443,
                  l_Protocol = TLSProtocolType\<rparr>,
                 \<lparr>l_Name = ''a'', l_Hostname = Some ''a.com'', l_Port = 443,
                  l_Protocol = HTTPSProtocolType\<rparr>,
                 \<lparr>l_Name = ''b'', l_Hostname = Some ''a.com'', l_Port = 443,
                  l_Protocol = TLSProtocolType\<rparr>],
              Status_Conditions = [],
              Status_Listeners =
                [\<lparr>ls_Name = ''x'', ls_SupportedKinds = [], ls_AttachedRoutes = 0,
                  ls_Conditions =
                    [\<lparr>cond_Type = ListenerConditionConflicted, cond_Status = ConditionFalse,
                      cond_ObservedGeneration = 1, cond_LastTransitionTime = 0,
                      cond_Reason = ListenerReasonNoConflicts, cond_Message = []\<rparr>]\<rparr>,
                 \<lparr>ls_Name = ''a'', ls_SupportedKinds = [], ls_AttachedRoutes = 0,
                  ls_Conditions =
                    [\<lparr>cond_Type = ListenerConditionConflicted, cond_Status = ConditionFalse,
                      cond_ObservedGeneration = 1, cond_LastTransitionTime = 0,
                      cond_Reason = ListenerReasonNoConflicts, cond_Message = []\<rparr>]\<rparr>,
                 \<lparr>ls_Name = ''b'', ls_SupportedKinds = [], ls_AttachedRoutes = 0,
                  ls_Conditions =
                    [\<lparr>cond_Type = ListenerConditionConflicted, cond_Status = ConditionFalse,
                      cond_ObservedGeneration = 1, cond_LastTransitionTime = 0,
                      cond_Reason = ListenerReasonNoConflicts, cond_Message = []\<rparr>]\<rparr>]\<rparr>"]
    getListenerStatus_last_claim_wins
        [where i = 0 and j = 1 and f = 0 and kinds = "[]" and now = 0 and kongListens = "[]" and
           gw = "\<lparr>gw_Name = ''gw'', gw_Namespace = ''default'', gw_Generation = 2,
              Spec_GatewayClassName = ''kong'',
              Spec_Listeners =
                [\<lparr>l_Name = ''a'', l_Hostname = Some ''a.com'', l_Port = 80,
                  l_Protocol = HTTPProtocolType\<rparr>,
                 \<lparr>l_Name = ''b'', l_Hostname = Some ''a.com'', l_Port = 80,
                  l_Protocol = HTTPSProtocolType\<rparr>],
              Status_Conditions = [],
              Status_Listeners =
                [\<lparr>ls_Name = ''a'', ls_SupportedKinds = [], ls_AttachedRoutes = 0,
                  ls_Conditions =
                    [\<lparr>cond_Type = ListenerConditionConflicted, cond_Status = ConditionFalse,
                      cond_ObservedGeneration = 1, cond_LastTransitionTime = 0,
                      cond_Reason = ListenerReasonNoConflicts, cond_Message = []\<rparr>]\<rparr>,
                 \<lparr>ls_Name = ''b'', ls_SupportedKinds = [], ls_AttachedRoutes = 0,
                  ls_Conditions =
                    [\<lparr>cond_Type = ListenerConditionConflicted, cond_Status = ConditionFalse,
                      cond_ObservedGeneration = 1, cond_LastTransitionTime = 0,
                      cond_Reason = ListenerReasonNoConflicts, cond_Message = []\<rparr>]\<rparr>]\<rparr>"]
  by (simp add: previousNoConflict_def existingNoConflict_def sameProtocolGroup_def
        listenerHostname_def less_Suc_eq)

end
